theory Spec2Isabelle
  imports Main "HOL-Library.Word"
begin

section \<open>Smart-contract transaction encoding (erdpy/contracts.py)\<close>

text \<open>
  A shallow embedding of \<^verbatim>\<open>erdpy/contracts.py\<close>: argument encoding, code metadata,
  contract-address derivation, the three transaction builders and the interpretation of
  query results.

  Python text is modelled as \<^typ>\<open>string\<close>; the built-in text operations below
  (\<^verbatim>\<open>str.upper\<close>, \<^verbatim>\<open>str.isnumeric\<close>, \<^verbatim>\<open>int(s, base)\<close>) are modelled on characters of
  8 bits. Python's unbounded integers are
  \<^typ>\<open>int\<close>, byte strings are lists of 8-bit words, and every exception the module can
  raise is a value of the type \<open>error\<close>.
\<close>

subsection \<open>Values, errors and records\<close>

type_synonym byte = "8 word"

datatype error =
    UnknownArgumentFormat string
  | ValueError
  | TypeError
  | OverflowError
  | AttributeError
  | BinasciiError

text \<open>
  The arguments of a contract call have the type \<^verbatim>\<open>Any\<close> and are only ever read through
  \<^verbatim>\<open>str(argument)\<close>; the two kinds of value the callers pass are integers and text.
\<close>

datatype argument = ArgInt int | ArgStr string

text \<open>\<^verbatim>\<open>class CodeMetadata\<close>, with its two flags.\<close>

record CodeMetadata =
  upgradeable :: bool
  payable :: bool

text \<open>\<^verbatim>\<open>class QueryResult\<close>: the three readings of one returned value.\<close>

record QueryResult =
  base64 :: string
  hex :: string
  number :: int

text \<open>
  Modelled from the spec: the classes \<^verbatim>\<open>Account\<close> and \<^verbatim>\<open>Address\<close> of \<^verbatim>\<open>erdpy.accounts\<close>,
  which are not among the sources. An address is the 32-byte value of the specification,
  kept as its raw public key bytes (\<^verbatim>\<open>address.pubkey()\<close>); its text form is a parameter
  of the model. An account is what this module reads of it: \<^verbatim>\<open>account.address\<close> and
  \<^verbatim>\<open>account.nonce\<close>.
\<close>

record Account =
  account_address :: "byte list"
  account_nonce :: int

text \<open>
  Modelled from the spec: the class \<^verbatim>\<open>Transaction\<close> of \<^verbatim>\<open>erdpy.transactions\<close>, which is not
  among the sources. Its fields are those of the specification's transaction record, which
  are the attributes the builders assign, and the signature that \<^verbatim>\<open>tx.sign\<close> stores.
\<close>

record Transaction =
  nonce :: int
  "value" :: string
  sender :: string
  receiver :: string
  gasPrice :: int
  gasLimit :: int
  data :: string
  chainID :: string
  version :: int
  signature :: string

text \<open>
  \<^verbatim>\<open>class SmartContract\<close>. An address is kept as its raw bytes; \<^verbatim>\<open>owner\<close> and \<^verbatim>\<open>caller\<close>
  are the attributes that \<^verbatim>\<open>deploy\<close>, \<^verbatim>\<open>upgrade\<close> and \<^verbatim>\<open>execute\<close> assign, absent until then.
\<close>

record SmartContract =
  address :: "byte list"
  bytecode :: string
  metadata :: CodeMetadata
  owner :: "Account option"
  caller :: "Account option"

text \<open>
  What the module takes from outside this file: the constants
  \<^verbatim>\<open>constants.VM_TYPE_WASM_VM\<close> and \<^verbatim>\<open>config.DEFAULT_GAS_PRICE\<close>, the Keccak-256 digest,
  the text form \<^verbatim>\<open>Address.bech32\<close>, the address \<^verbatim>\<open>Address.zero()\<close>, the signer behind
  \<^verbatim>\<open>tx.sign\<close>, and the interpreter's limit on the digits of a conversion between an integer
  and decimal text (\<^verbatim>\<open>sys.get_int_max_str_digits()\<close>). They are parameters of the model.
\<close>

record externals =
  VM_TYPE_WASM_VM :: string
  DEFAULT_GAS_PRICE :: int
  keccak256 :: "byte list \<Rightarrow> byte list"
  bech32 :: "byte list \<Rightarrow> string"
  address_zero :: "byte list"
  sign_transaction :: "Account \<Rightarrow> Transaction \<Rightarrow> string"
  int_max_str_digits :: nat

text \<open>The payload that \<^verbatim>\<open>query_detailed\<close> sends to the proxy, one field for each key.\<close>

record payload =
  scAddress :: string
  funcName :: string
  args :: "string list"
  payload_value :: string
  payload_caller :: "string option"

text \<open>
  The proxy's answer: a dictionary whose entry \<^verbatim>\<open>data\<close> is a dictionary from keys to lists
  of returned entries; an entry is a text or \<^verbatim>\<open>null\<close>.
\<close>

type_synonym response_data = "(string \<times> string option list) list"

type_synonym response = "(string \<times> response_data) list"

text \<open>
  What \<^verbatim>\<open>_interpret_return_data\<close> returns: \<^verbatim>\<open>None\<close>, the (empty) text it was given, or a
  \<^verbatim>\<open>QueryResult\<close>.
\<close>

datatype returned = PyNone | PyStr string | Result QueryResult

subsection \<open>Built-in conversions between integers and text\<close>

text \<open>The digit characters \<^verbatim>\<open>0-9a-f\<close> that \<^verbatim>\<open>str\<close>, \<^verbatim>\<open>hex\<close> and \<^verbatim>\<open>bytes.hex\<close> produce.\<close>

definition digit_char :: "nat \<Rightarrow> char" where
  "digit_char d = (if d < 10 then char_of (48 + d) else char_of (87 + d))"

text \<open>The digits of a natural number in base \<open>b\<close>, most significant first.\<close>

function digits_of :: "nat \<Rightarrow> nat \<Rightarrow> string" where
  "digits_of b n =
     (if b < 2 \<or> n < b then [digit_char n]
      else digits_of b (n div b) @ [digit_char (n mod b)])"
  by pat_completeness auto
termination
  by (relation "measure (\<lambda>(b, n). n)") auto

declare digits_of.simps [simp del]

text \<open>
  The interpreter's limit on conversions between integers and decimal text: with the
  setting \<open>max_digits\<close> (4300 unless changed, 0 for no limit, which is also the behaviour
  of interpreters that have no such setting; a setting other than 0 is at least 640), a
  conversion of more than \<open>max_digits\<close> digits raises \<^verbatim>\<open>ValueError\<close>. Bases that are powers
  of two have no limit.
\<close>

definition exceeds_limit :: "nat \<Rightarrow> nat \<Rightarrow> bool" where
  "exceeds_limit max_digits n = (0 < max_digits \<and> max_digits < n)"

text \<open>
  \<^verbatim>\<open>str(n)\<close> for an integer: decimal digits, with a minus sign when negative, and
  \<^verbatim>\<open>ValueError\<close> when the digits exceed the limit.
\<close>

definition str_int :: "nat \<Rightarrow> int \<Rightarrow> error + string" where
  "str_int max_digits i =
     (let ds = (if i < 0 then digits_of 10 (nat (- i)) else digits_of 10 (nat i))
      in if exceeds_limit max_digits (length ds) then Inl ValueError
         else Inr (if i < 0 then CHR ''-'' # ds else ds))"

text \<open>\<^verbatim>\<open>hex(n)\<close>: the prefix \<^verbatim>\<open>0x\<close> and lowercase digits, with a minus sign when negative.\<close>

definition hex_int :: "int \<Rightarrow> string" where
  "hex_int i =
     (if i < 0 then ''-0x'' @ digits_of 16 (nat (- i)) else ''0x'' @ digits_of 16 (nat i))"

text \<open>
  The value of a character as a digit, as the interpreter's digit table has it: \<open>0..9\<close>
  for the decimal digits, \<open>10..35\<close> for letters of either case, and \<open>37\<close> (no digit of
  any base) for everything else.
\<close>

definition digit_value :: "char \<Rightarrow> nat" where
  "digit_value c =
     (let n = (of_char c :: nat) in
      if 48 \<le> n \<and> n \<le> 57 then n - 48
      else if 97 \<le> n \<and> n \<le> 122 then n - 87
      else if 65 \<le> n \<and> n \<le> 90 then n - 55
      else 37)"

text \<open>
  The white space that \<^verbatim>\<open>int(s, base)\<close> skips around a literal: tab, line feed, vertical
  tab, form feed, carriage return and space, and of the characters above 127 the next-line
  character and the no-break space (U+0085 and U+00A0), which the conversion turns into
  spaces. The separators U+001C to U+001F stay what they are and are not skipped.
\<close>

definition is_space :: "char \<Rightarrow> bool" where
  "is_space c = ((of_char c :: nat) \<in> {9, 10, 11, 12, 13, 32, 133, 160})"

text \<open>
  The digit scan of \<^verbatim>\<open>int(s, base)\<close>: digits of the base, with single underscores allowed
  between them. It returns the value read, the number of digits and the text left over,
  or \<open>None\<close> where an underscore is doubled or trailing.
\<close>

fun scan_digits :: "nat \<Rightarrow> bool \<Rightarrow> nat \<Rightarrow> nat \<Rightarrow> string \<Rightarrow> (nat \<times> nat \<times> string) option" where
  "scan_digits base prev_us acc cnt [] = (if prev_us then None else Some (acc, cnt, []))"
| "scan_digits base prev_us acc cnt (c # cs) =
     (if c = CHR ''_'' then (if prev_us then None else scan_digits base True acc cnt cs)
      else if digit_value c < base
        then scan_digits base False (acc * base + digit_value c) (Suc cnt) cs
      else if prev_us then None
      else Some (acc, cnt, c # cs))"

text \<open>
  \<^verbatim>\<open>int(s, base)\<close> for base 10 and 16: leading white space, an optional sign, for base 16
  an optional \<^verbatim>\<open>0x\<close>/\<^verbatim>\<open>0X\<close> prefix (one underscore may follow it), at least one digit,
  trailing white space, and nothing else. Anything else raises \<^verbatim>\<open>ValueError\<close>, and so
  does, for base 10, a text with more digits than the limit.
\<close>

definition skip_sign :: "string \<Rightarrow> bool \<times> string" where
  "skip_sign s =
     (case s of
        [] \<Rightarrow> (False, s)
      | c # cs \<Rightarrow>
          if c = CHR ''+'' then (False, cs)
          else if c = CHR ''-'' then (True, cs)
          else (False, s))"

definition skip_prefix :: "nat \<Rightarrow> string \<Rightarrow> string" where
  "skip_prefix base s =
     (if base = 16 \<and> (take 2 s = ''0x'' \<or> take 2 s = ''0X'')
      then (if take 1 (drop 2 s) = ''_'' then drop 3 s else drop 2 s)
      else s)"

definition int_of_str :: "nat \<Rightarrow> nat \<Rightarrow> string \<Rightarrow> error + int" where
  "int_of_str max_digits base s =
     (case skip_sign (dropWhile is_space s) of
        (negative, s2) \<Rightarrow>
          (let s3 = skip_prefix base s2
           in if take 1 s3 = ''_'' then Inl ValueError
              else (case scan_digits base False 0 0 s3 of
                      None \<Rightarrow> Inl ValueError
                    | Some (v, cnt, rest) \<Rightarrow>
                        if base \<noteq> 16 \<and> exceeds_limit max_digits cnt then Inl ValueError
                        else if cnt = 0 then Inl ValueError
                        else if dropWhile is_space rest \<noteq> [] then Inl ValueError
                        else Inr (if negative then - int v else int v))))"

text \<open>
  \<^verbatim>\<open>str.upper()\<close>, exact on ASCII text. It leaves the characters above 127 as they are,
  where \<^verbatim>\<open>str.upper\<close> changes the Latin-1 letters; no text with such a letter is accepted
  by the encoder either way, so that this touches only the text an
  \<^verbatim>\<open>UnknownArgumentFormat\<close> carries.
\<close>

definition upper_char :: "char \<Rightarrow> char" where
  "upper_char c =
     (let n = (of_char c :: nat) in if 97 \<le> n \<and> n \<le> 122 then char_of (n - 32) else c)"

definition upper :: "string \<Rightarrow> string" where
  "upper s = map upper_char s"

text \<open>
  \<^verbatim>\<open>str.isnumeric()\<close>: the text is not empty and every character is numeric. The numeric
  characters are the decimal digits and, above 127, the superscripts two, three and one
  and the fractions one quarter, one half and three quarters (U+00B2, U+00B3, U+00B9,
  U+00BC, U+00BD, U+00BE), which \<^verbatim>\<open>int\<close> does not read.
\<close>

definition is_decimal_digit :: "char \<Rightarrow> bool" where
  "is_decimal_digit c = (48 \<le> (of_char c :: nat) \<and> (of_char c :: nat) \<le> 57)"

definition is_numeric_char :: "char \<Rightarrow> bool" where
  "is_numeric_char c =
     (is_decimal_digit c \<or> (of_char c :: nat) \<in> {178, 179, 185, 188, 189, 190})"

definition isnumeric :: "string \<Rightarrow> bool" where
  "isnumeric s = (s \<noteq> [] \<and> list_all is_numeric_char s)"

text \<open>\<^verbatim>\<open>str(argument)\<close>.\<close>

fun str_of :: "nat \<Rightarrow> argument \<Rightarrow> error + string" where
  "str_of max_digits (ArgInt i) = str_int max_digits i"
| "str_of max_digits (ArgStr s) = Inr s"

subsection \<open>Argument encoding\<close>

definition HEX_PREFIX :: string where
  "HEX_PREFIX = ''0X''"

definition ensure_even_length :: "string \<Rightarrow> string" where
  "ensure_even_length s = (if length s mod 2 = 1 then CHR ''0'' # s else s)"

text \<open>
  \<^verbatim>\<open>_prepare_hexadecimal\<close>: the prefix is cut off, the rest is padded to even length, and
  \<^verbatim>\<open>int(argument, 16)\<close> is the validity check; its \<^verbatim>\<open>ValueError\<close> becomes
  \<^verbatim>\<open>UnknownArgumentFormat\<close>.
\<close>

definition prepare_hexadecimal :: "nat \<Rightarrow> string \<Rightarrow> error + string" where
  "prepare_hexadecimal max_digits argument =
     (let argument1 = drop (length HEX_PREFIX) argument;
          argument2 = ensure_even_length argument1
      in case int_of_str max_digits 16 argument2 of
           Inl _ \<Rightarrow> Inl (UnknownArgumentFormat argument2)
         | Inr _ \<Rightarrow> Inr argument2)"

text \<open>
  \<^verbatim>\<open>_prepare_decimal\<close>; a \<^verbatim>\<open>ValueError\<close> of \<^verbatim>\<open>int(argument)\<close> is not caught.
\<close>

definition prepare_decimal :: "nat \<Rightarrow> string \<Rightarrow> error + string" where
  "prepare_decimal max_digits argument =
     (if \<not> isnumeric argument then Inl (UnknownArgumentFormat argument)
      else (case int_of_str max_digits 10 argument of
              Inl e \<Rightarrow> Inl e
            | Inr as_number \<Rightarrow>
                Inr (ensure_even_length (drop (length HEX_PREFIX) (hex_int as_number)))))"

text \<open>\<^verbatim>\<open>_prepare_argument\<close>; a \<^verbatim>\<open>ValueError\<close> of \<^verbatim>\<open>str(argument)\<close> is not caught.\<close>

definition prepare_argument :: "nat \<Rightarrow> argument \<Rightarrow> error + string" where
  "prepare_argument max_digits argument =
     (case str_of max_digits argument of
        Inl e \<Rightarrow> Inl e
      | Inr text \<Rightarrow>
          (let as_string = upper text
           in if take (length HEX_PREFIX) as_string = HEX_PREFIX
              then prepare_hexadecimal max_digits as_string
              else prepare_decimal max_digits as_string))"

subsection \<open>Code metadata\<close>

text \<open>\<^verbatim>\<open>CodeMetadata.to_hex\<close>.\<close>

definition to_hex :: "CodeMetadata \<Rightarrow> string" where
  "to_hex m = (if upgradeable m then ''01'' else ''00'') @ (if payable m then ''02'' else ''00'')"

subsection \<open>Transaction data\<close>

text \<open>
  The loop that ends each of the three builders: every argument is encoded with
  \<^verbatim>\<open>_prepare_argument\<close> and appended to \<^verbatim>\<open>tx_data\<close> after an \<^verbatim>\<open>@\<close>, in the order of
  the list. The first argument that fails to encode raises, and no data is built.
\<close>

fun append_arguments :: "nat \<Rightarrow> string \<Rightarrow> argument list \<Rightarrow> error + string" where
  "append_arguments max_digits tx_data [] = Inr tx_data"
| "append_arguments max_digits tx_data (arg # rest) =
     (case prepare_argument max_digits arg of
        Inl e \<Rightarrow> Inl e
      | Inr encoded \<Rightarrow> append_arguments max_digits (tx_data @ ''@'' @ encoded) rest)"

definition prepare_deploy_transaction_data :: "nat \<Rightarrow> string \<Rightarrow> SmartContract \<Rightarrow> argument list
    \<Rightarrow> error + string" where
  "prepare_deploy_transaction_data max_digits vm_type self arguments =
     append_arguments max_digits
       (bytecode self @ ''@'' @ vm_type @ ''@'' @ to_hex (metadata self)) arguments"

definition prepare_execute_transaction_data :: "nat \<Rightarrow> string \<Rightarrow> argument list \<Rightarrow> error + string" where
  "prepare_execute_transaction_data max_digits function arguments =
     append_arguments max_digits function arguments"

definition prepare_upgrade_transaction_data :: "nat \<Rightarrow> SmartContract \<Rightarrow> argument list
    \<Rightarrow> error + string" where
  "prepare_upgrade_transaction_data max_digits self arguments =
     append_arguments max_digits
       (''upgradeContract@'' @ bytecode self @ ''@'' @ to_hex (metadata self)) arguments"

subsection \<open>Address derivation\<close>

text \<open>
  \<^verbatim>\<open>n.to_bytes(length, byteorder="little")\<close>: the bytes of \<open>n\<close>, least significant first;
  \<^verbatim>\<open>OverflowError\<close> when \<open>n\<close> is negative or does not fit.
\<close>

definition to_bytes_little :: "nat \<Rightarrow> int \<Rightarrow> error + byte list" where
  "to_bytes_little len n =
     (if n < 0 \<or> 256 ^ len \<le> n then Inl OverflowError
      else Inr (map (\<lambda>k. word_of_int (n div 256 ^ k)) [0..<len]))"

text \<open>
  \<^verbatim>\<open>SmartContract.compute_address\<close>. It reads \<^verbatim>\<open>self.owner\<close> (an \<^verbatim>\<open>AttributeError\<close> when
  no owner was assigned) and stores the derived address. The slices \<^verbatim>\<open>address[10:30]\<close> and
  \<^verbatim>\<open>owner_bytes[30:]\<close> are \<open>take 20 (drop 10 _)\<close> and \<open>drop 30 _\<close>; \<^verbatim>\<open>Address(address)\<close>
  keeps the bytes.
\<close>

definition compute_address :: "(byte list \<Rightarrow> byte list) \<Rightarrow> SmartContract \<Rightarrow> error + SmartContract" where
  "compute_address keccak self =
     (case owner self of
        None \<Rightarrow> Inl AttributeError
      | Some ow \<Rightarrow>
          (let owner_bytes = account_address ow
           in case to_bytes_little 8 (account_nonce ow) of
                Inl e \<Rightarrow> Inl e
              | Inr nonce_bytes \<Rightarrow>
                  (let bytes_to_hash = owner_bytes @ nonce_bytes;
                       digest = keccak bytes_to_hash;
                       addr = replicate 8 0 @ [5, 0] @ take 20 (drop 10 digest) @ drop 30 owner_bytes
                   in Inr (self\<lparr>address := addr\<rparr>))))"

subsection \<open>Deploy, execute and upgrade\<close>

text \<open>
  \<^verbatim>\<open>int(x)\<close> on a gas price: the integer itself, and \<^verbatim>\<open>TypeError\<close> for \<^verbatim>\<open>None\<close>.
\<close>

definition int_of_optional :: "int option \<Rightarrow> error + int" where
  "int_of_optional x = (case x of None \<Rightarrow> Inl TypeError | Some i \<Rightarrow> Inr i)"

text \<open>\<^verbatim>\<open>x or d\<close> on an optional integer: \<open>d\<close> when \<open>x\<close> is \<^verbatim>\<open>None\<close> or zero.\<close>

definition or_default :: "int option \<Rightarrow> int \<Rightarrow> int" where
  "or_default x d = (case x of None \<Rightarrow> d | Some i \<Rightarrow> if i = 0 then d else i)"

text \<open>
  Modelled from the spec: \<^verbatim>\<open>Transaction.sign\<close>, which is not among the sources. The
  assembled transaction is handed to the external signer, and the signature it returns is
  stored in the transaction.
\<close>

definition sign :: "externals \<Rightarrow> Account \<Rightarrow> Transaction \<Rightarrow> Transaction" where
  "sign ext account tx = tx\<lparr>signature := sign_transaction ext account tx\<rparr>"

text \<open>
  \<^verbatim>\<open>SmartContract.deploy\<close>. The result is the contract after the call, whose attributes are
  assigned also when the call raises, and the transaction or the exception. The steps that
  can raise come in the order of the source: the address, \<^verbatim>\<open>int(gas_price)\<close>,
  \<^verbatim>\<open>str(value)\<close>, the data.
\<close>

definition deploy :: "externals \<Rightarrow> SmartContract \<Rightarrow> Account \<Rightarrow> argument list \<Rightarrow> int option \<Rightarrow> int
    \<Rightarrow> int option \<Rightarrow> string \<Rightarrow> int \<Rightarrow> SmartContract \<times> (error + Transaction)" where
  "deploy ext self ow arguments gas_price gas_limit val chain ver =
     (let self1 = self\<lparr>owner := Some ow\<rparr>
      in case compute_address (keccak256 ext) self1 of
           Inl e \<Rightarrow> (self1, Inl e)
         | Inr self2 \<Rightarrow>
             (case int_of_optional gas_price of
                Inl e \<Rightarrow> (self2, Inl e)
              | Inr gas_price1 \<Rightarrow>
                  (case str_int (int_max_str_digits ext) (or_default val 0) of
                     Inl e \<Rightarrow> (self2, Inl e)
                   | Inr value_text \<Rightarrow>
                       (case prepare_deploy_transaction_data (int_max_str_digits ext)
                               (VM_TYPE_WASM_VM ext) self2 arguments of
                          Inl e \<Rightarrow> (self2, Inl e)
                        | Inr tx_data \<Rightarrow>
                            (self2, Inr (sign ext ow
                               \<lparr>nonce = account_nonce ow,
                                value = value_text,
                                sender = bech32 ext (account_address ow),
                                receiver = bech32 ext (address_zero ext),
                                gasPrice = gas_price1,
                                gasLimit = gas_limit,
                                data = tx_data,
                                chainID = chain,
                                version = ver,
                                signature = []\<rparr>))))))"

text \<open>\<^verbatim>\<open>SmartContract.execute\<close>.\<close>

definition execute :: "externals \<Rightarrow> SmartContract \<Rightarrow> Account \<Rightarrow> string \<Rightarrow> argument list \<Rightarrow> int option
    \<Rightarrow> int \<Rightarrow> int option \<Rightarrow> string \<Rightarrow> int \<Rightarrow> SmartContract \<times> (error + Transaction)" where
  "execute ext self cl function arguments gas_price gas_limit val chain ver =
     (let self1 = self\<lparr>caller := Some cl\<rparr>
      in case int_of_optional gas_price of
           Inl e \<Rightarrow> (self1, Inl e)
         | Inr gas_price1 \<Rightarrow>
             (case str_int (int_max_str_digits ext) (or_default val 0) of
                Inl e \<Rightarrow> (self1, Inl e)
              | Inr value_text \<Rightarrow>
                  (case prepare_execute_transaction_data (int_max_str_digits ext)
                          function arguments of
                     Inl e \<Rightarrow> (self1, Inl e)
                   | Inr tx_data \<Rightarrow>
                       (self1, Inr (sign ext cl
                          \<lparr>nonce = account_nonce cl,
                           value = value_text,
                           sender = bech32 ext (account_address cl),
                           receiver = bech32 ext (address self1),
                           gasPrice = gas_price1,
                           gasLimit = gas_limit,
                           data = tx_data,
                           chainID = chain,
                           version = ver,
                           signature = []\<rparr>)))))"

text \<open>
  \<^verbatim>\<open>SmartContract.upgrade\<close>; its gas price is \<^verbatim>\<open>int(gas_price or config.DEFAULT_GAS_PRICE)\<close>.
\<close>

definition upgrade :: "externals \<Rightarrow> SmartContract \<Rightarrow> Account \<Rightarrow> argument list \<Rightarrow> int option \<Rightarrow> int
    \<Rightarrow> int option \<Rightarrow> string \<Rightarrow> int \<Rightarrow> SmartContract \<times> (error + Transaction)" where
  "upgrade ext self ow arguments gas_price gas_limit val chain ver =
     (let self1 = self\<lparr>owner := Some ow\<rparr>;
          gas_price1 = or_default gas_price (DEFAULT_GAS_PRICE ext)
      in case str_int (int_max_str_digits ext) (or_default val 0) of
           Inl e \<Rightarrow> (self1, Inl e)
         | Inr value_text \<Rightarrow>
             (case prepare_upgrade_transaction_data (int_max_str_digits ext) self1 arguments of
                Inl e \<Rightarrow> (self1, Inl e)
              | Inr tx_data \<Rightarrow>
                  (self1, Inr (sign ext ow
                     \<lparr>nonce = account_nonce ow,
                      value = value_text,
                      sender = bech32 ext (account_address ow),
                      receiver = bech32 ext (address self1),
                      gasPrice = gas_price1,
                      gasLimit = gas_limit,
                      data = tx_data,
                      chainID = chain,
                      version = ver,
                      signature = []\<rparr>))))"

subsection \<open>Queries\<close>

text \<open>
  The value of a character in the base64 alphabet, \<open>None\<close> outside it.
\<close>

definition b64_digit :: "char \<Rightarrow> nat option" where
  "b64_digit c =
     (let n = (of_char c :: nat) in
      if 65 \<le> n \<and> n \<le> 90 then Some (n - 65)
      else if 97 \<le> n \<and> n \<le> 122 then Some (n - 71)
      else if 48 \<le> n \<and> n \<le> 57 then Some (n + 4)
      else if n = 43 then Some 62
      else if n = 47 then Some 63
      else None)"

text \<open>
  The decoding loop of the standard library (\<^verbatim>\<open>binascii.a2b_base64\<close>, not strict):
  characters outside the alphabet are skipped, every four digits give three bytes, a
  complete run of padding ends the input, and input that ends inside a group of four is an
  error. The state is the position in the group, the padding seen, the bits left over and
  the bytes written.
\<close>

fun a2b_base64 :: "nat \<Rightarrow> nat \<Rightarrow> nat \<Rightarrow> byte list \<Rightarrow> string \<Rightarrow> error + byte list" where
  "a2b_base64 quad_pos pads leftchar out [] =
     (if quad_pos \<noteq> 0 then Inl BinasciiError else Inr out)"
| "a2b_base64 quad_pos pads leftchar out (c # cs) =
     (if c = CHR ''='' then
        (if 2 \<le> quad_pos \<and> 4 \<le> quad_pos + (pads + 1) then Inr out
         else a2b_base64 quad_pos (if 2 \<le> quad_pos then pads + 1 else pads) leftchar out cs)
      else
        (case b64_digit c of
           None \<Rightarrow> a2b_base64 quad_pos pads leftchar out cs
         | Some v \<Rightarrow>
             (if quad_pos = 0 then a2b_base64 1 0 v out cs
              else if quad_pos = 1
                then a2b_base64 2 0 (v mod 16) (out @ [of_nat (leftchar * 4 + v div 16)]) cs
              else if quad_pos = 2
                then a2b_base64 3 0 (v mod 4) (out @ [of_nat (leftchar * 16 + v div 4)]) cs
              else a2b_base64 0 0 0 (out @ [of_nat (leftchar * 64 + v)]) cs)))"

text \<open>
  \<^verbatim>\<open>base64.b64decode(data)\<close> on text: text with a character outside ASCII raises
  \<^verbatim>\<open>ValueError\<close>, everything else goes through the decoding loop.
\<close>

definition b64decode :: "string \<Rightarrow> error + byte list" where
  "b64decode s =
     (if list_ex (\<lambda>c. 127 < (of_char c :: nat)) s then Inl ValueError
      else a2b_base64 0 0 0 [] s)"

text \<open>\<^verbatim>\<open>bytes.hex()\<close>: two lowercase digits for each byte.\<close>

definition bytes_hex :: "byte list \<Rightarrow> string" where
  "bytes_hex bs = concat (map (\<lambda>b. [digit_char (unat b div 16), digit_char (unat b mod 16)]) bs)"

text \<open>
  \<^verbatim>\<open>SmartContract._interpret_return_data\<close>. An entry that is \<^verbatim>\<open>None\<close> or empty is returned
  as it is; any exception inside the \<^verbatim>\<open>try\<close> block is logged and gives \<^verbatim>\<open>None\<close>. The
  conversion \<^verbatim>\<open>int(as_hex, 16)\<close> is in base 16, which has no limit on the digits.
\<close>

definition interpret_return_data :: "string option \<Rightarrow> returned" where
  "interpret_return_data d =
     (case d of
        None \<Rightarrow> PyNone
      | Some s \<Rightarrow>
          if s = [] then PyStr s
          else (case b64decode s of
                  Inl _ \<Rightarrow> PyNone
                | Inr as_bytes \<Rightarrow>
                    (let as_hex = bytes_hex as_bytes
                     in case int_of_str 0 16 as_hex of
                          Inl _ \<Rightarrow> PyNone
                        | Inr as_number \<Rightarrow>
                            Result \<lparr>base64 = s, hex = as_hex, number = as_number\<rparr>)))"

text \<open>\<^verbatim>\<open>d.get(key, default)\<close> on a dictionary.\<close>

definition dict_get :: "('k \<times> 'v) list \<Rightarrow> 'k \<Rightarrow> 'v \<Rightarrow> 'v" where
  "dict_get d k dflt = (case map_of d k of None \<Rightarrow> dflt | Some v \<Rightarrow> v)"

text \<open>
  The comprehension \<^verbatim>\<open>[_prepare_argument(argument) for argument in arguments]\<close>, which
  raises at the first argument that fails to encode.
\<close>

fun prepare_arguments :: "nat \<Rightarrow> argument list \<Rightarrow> error + string list" where
  "prepare_arguments max_digits [] = Inr []"
| "prepare_arguments max_digits (a # rest) =
     (case prepare_argument max_digits a of
        Inl e \<Rightarrow> Inl e
      | Inr encoded \<Rightarrow>
          (case prepare_arguments max_digits rest of
             Inl e \<Rightarrow> Inl e
           | Inr others \<Rightarrow> Inr (encoded # others)))"

text \<open>
  \<^verbatim>\<open>SmartContract.query_detailed\<close>; the proxy is a function from payloads to answers. The
  arguments are encoded first, then the payload is built, with \<^verbatim>\<open>str(value)\<close> in it.
\<close>

definition query_detailed :: "externals \<Rightarrow> SmartContract \<Rightarrow> (payload \<Rightarrow> response) \<Rightarrow> string
    \<Rightarrow> argument list \<Rightarrow> int \<Rightarrow> byte list option \<Rightarrow> error + response_data" where
  "query_detailed ext self proxy function arguments val cl =
     (case prepare_arguments (int_max_str_digits ext) arguments of
        Inl e \<Rightarrow> Inl e
      | Inr prepared_arguments \<Rightarrow>
          (case str_int (int_max_str_digits ext) val of
             Inl e \<Rightarrow> Inl e
           | Inr value_text \<Rightarrow>
               (let pl = \<lparr>scAddress = bech32 ext (address self),
                          funcName = function,
                          args = prepared_arguments,
                          payload_value = value_text,
                          payload_caller = map_option (bech32 ext) cl\<rparr>;
                    resp = proxy pl
                in Inr (dict_get resp ''data'' []))))"

text \<open>
  \<^verbatim>\<open>SmartContract.query\<close>: the list under \<^verbatim>\<open>returnData\<close>, or the one under \<^verbatim>\<open>ReturnData\<close>
  when the first is missing or empty, with every entry interpreted.
\<close>

definition query :: "externals \<Rightarrow> SmartContract \<Rightarrow> (payload \<Rightarrow> response) \<Rightarrow> string
    \<Rightarrow> argument list \<Rightarrow> int \<Rightarrow> byte list option \<Rightarrow> error + returned list" where
  "query ext self proxy function arguments val cl =
     (case query_detailed ext self proxy function arguments val cl of
        Inl e \<Rightarrow> Inl e
      | Inr response_data \<Rightarrow>
          (let return_data =
                 (if dict_get response_data ''returnData'' [] \<noteq> []
                  then dict_get response_data ''returnData'' []
                  else dict_get response_data ''ReturnData'' [])
           in Inr (map interpret_return_data return_data)))"

subsection \<open>Notions of the specification\<close>

text \<open>
  A valid hex string, as the specification speaks of it: not empty, and made of the
  characters \<^verbatim>\<open>0-9\<close>, \<^verbatim>\<open>a-f\<close> and \<^verbatim>\<open>A-F\<close> only. A hex string without lowercase letters
  is made of \<^verbatim>\<open>0-9\<close> and \<^verbatim>\<open>A-F\<close>.
\<close>

definition is_hex_digit :: "char \<Rightarrow> bool" where
  "is_hex_digit c = (c \<in> set ''0123456789abcdefABCDEF'')"

definition is_upper_hex_digit :: "char \<Rightarrow> bool" where
  "is_upper_hex_digit c = (c \<in> set ''0123456789ABCDEF'')"

definition valid_hex :: "string \<Rightarrow> bool" where
  "valid_hex h = (h \<noteq> [] \<and> list_all is_hex_digit h)"

text \<open>
  The unsigned integer that a sequence of bytes denotes, most significant byte first
  (\<^verbatim>\<open>int.from_bytes(bs, "big")\<close>) and least significant byte first
  (\<^verbatim>\<open>int.from_bytes(bs, "little")\<close>).
\<close>

definition from_bytes_big :: "byte list \<Rightarrow> nat" where
  "from_bytes_big bs = foldl (\<lambda>a b. a * 256 + unat b) 0 bs"

definition from_bytes_little :: "byte list \<Rightarrow> nat" where
  "from_bytes_little bs = foldr (\<lambda>b a. unat b + 256 * a) bs 0"

subsection \<open>An instance of the parameters\<close>

text \<open>
  A deployed contract, an owner with a 32-byte public key, and one choice of the outside
  parameters, for evaluating the model on concrete inputs. The digest is a stand-in that
  returns 32 bytes, the hex text of an address stands in for its bech32 text, and the
  signature is a stand-in too; the limit on decimal digits is the interpreter's default.
  The properties below hold for every choice of them. The proxy \<open>answering r\<close> gives the answer \<open>r\<close> to every payload.
\<close>

definition example_contract :: SmartContract where
  "example_contract =
     \<lparr>address = replicate 8 0 @ [5, 0] @ replicate 22 1,
      bytecode = ''AABB'',
      metadata = \<lparr>upgradeable = True, payable = False\<rparr>,
      owner = None,
      caller = None\<rparr>"

definition example_owner :: Account where
  "example_owner = \<lparr>account_address = replicate 30 1 @ [2, 3], account_nonce = 7\<rparr>"

definition example_externals :: externals where
  "example_externals =
     \<lparr>VM_TYPE_WASM_VM = ''0500'',
      DEFAULT_GAS_PRICE = 1000000000,
      keccak256 = (\<lambda>bs. replicate 32 (of_nat (length bs))),
      bech32 = bytes_hex,
      address_zero = replicate 32 0,
      sign_transaction = (\<lambda>account tx. data tx),
      int_max_str_digits = 4300\<rparr>"

definition answering :: "response \<Rightarrow> payload \<Rightarrow> response" where
  "answering r pl = r"

section \<open>Facts about the conversions\<close>

lemma digit_value_digit_char: "d < 16 \<Longrightarrow> digit_value (digit_char d) = d"
  by (auto simp: digit_value_def digit_char_def Let_def)

lemma digit_value_cases:
  "digit_value c < 37 \<Longrightarrow> \<not> is_space c \<and> c \<noteq> CHR ''_'' \<and> c \<noteq> CHR ''+'' \<and> c \<noteq> CHR ''-''"
  by (auto simp: digit_value_def is_space_def Let_def split: if_splits)

lemma digit_value_x: "digit_value c < 16 \<Longrightarrow> c \<noteq> CHR ''x'' \<and> c \<noteq> CHR ''X''"
  by (auto simp: digit_value_def Let_def split: if_splits)

lemma scan_digits_all:
  "\<forall>c\<in>set ds. digit_value c < base \<Longrightarrow> base \<le> 36 \<Longrightarrow>
   scan_digits base False acc cnt ds =
     Some (foldl (\<lambda>a c. a * base + digit_value c) acc ds, cnt + length ds, [])"
proof (induction ds arbitrary: acc cnt)
  case Nil
  then show ?case by simp
next
  case (Cons c cs)
  then have "digit_value c < 37" by auto
  then have "c \<noteq> CHR ''_''" using digit_value_cases by blast
  with Cons show ?case by simp
qed

lemma int_of_str_16: "int_of_str L 16 s = int_of_str 0 16 s"
  by (simp add: int_of_str_def Let_def split: prod.splits option.splits)

lemma int_of_str_digits:
  assumes "ds \<noteq> []" and "\<forall>c\<in>set ds. digit_value c < base" and "base = 10 \<or> base = 16"
    and "base = 16 \<or> \<not> exceeds_limit L (length ds)"
  shows "int_of_str L base ds = Inr (int (foldl (\<lambda>a c. a * base + digit_value c) 0 ds))"
proof -
  obtain c cs where ds: "ds = c # cs" using assms(1) by (cases ds) auto
  have c: "digit_value c < 37" using assms(2,3) ds by auto
  have c1: "\<not> is_space c" "c \<noteq> CHR ''_''" "c \<noteq> CHR ''+''" "c \<noteq> CHR ''-''"
    using digit_value_cases [OF c] by auto
  have nopre: "\<not> (base = 16 \<and> (take 2 ds = ''0x'' \<or> take 2 ds = ''0X''))"
  proof (cases cs)
    case Nil
    then show ?thesis using ds by simp
  next
    case (Cons d es)
    show ?thesis
    proof
      assume a: "base = 16 \<and> (take 2 ds = ''0x'' \<or> take 2 ds = ''0X'')"
      then have "digit_value d < 16" using assms(2) ds Cons by simp
      then have "d \<noteq> CHR ''x'' \<and> d \<noteq> CHR ''X''" by (rule digit_value_x)
      then show False using a ds Cons by simp
    qed
  qed
  have b: "base \<le> 36" using assms(3) by auto
  have s1: "dropWhile is_space ds = ds" using c1 ds by simp
  have s2: "skip_sign ds = (False, ds)" using c1 ds by (simp add: skip_sign_def)
  have s3: "skip_prefix base ds = ds" by (simp only: skip_prefix_def nopre if_False)
  have t1: "take 1 ds \<noteq> ''_''" using c1 ds by simp
  have sc: "scan_digits base False 0 0 ds =
     Some (foldl (\<lambda>a c. a * base + digit_value c) 0 ds, length ds, [])"
    using scan_digits_all [OF assms(2) b, of 0 0] by simp
  have lim: "(base \<noteq> 16 \<and> exceeds_limit L (length ds)) = False" using assms(4) by blast
  show ?thesis
    using t1 assms(1) by (simp add: int_of_str_def s1 s2 s3 sc lim)
qed


lemma foldl_digits_of:
  "2 \<le> b \<Longrightarrow> b \<le> 16 \<Longrightarrow>
   foldl (\<lambda>a c. a * b + digit_value c) 0 (digits_of b n) = n
   \<and> (\<forall>c\<in>set (digits_of b n). digit_value c < b) \<and> digits_of b n \<noteq> []"
proof (induction b n rule: digits_of.induct)
  case (1 b n)
  show ?case
  proof (cases "n < b")
    case True
    then have "n < 16" using 1 by simp
    then show ?thesis using True digit_value_digit_char [of n] 1(2)
      by (simp add: digits_of.simps [of b n])
  next
    case False
    then have ih: "foldl (\<lambda>a c. a * b + digit_value c) 0 (digits_of b (n div b)) = n div b"
      "\<forall>c\<in>set (digits_of b (n div b)). digit_value c < b"
      using 1 by auto
    have m: "n mod b < 16" "n mod b < b" using 1(2,3) by (auto intro: less_le_trans [OF mod_less_divisor])
    show ?thesis using False 1(2) ih m digit_value_digit_char [of "n mod b"]
      by (simp add: digits_of.simps [of b n])
  qed
qed

lemma length_digits_of_le:
  "2 \<le> b \<Longrightarrow> 0 < k \<Longrightarrow> n < b ^ k \<Longrightarrow> length (digits_of b n) \<le> k"
proof (induction b n arbitrary: k rule: digits_of.induct)
  case (1 b n)
  show ?case
  proof (cases "n < b")
    case True
    then show ?thesis using 1(3) by (simp add: digits_of.simps [of b n])
  next
    case False
    obtain j where k: "k = Suc j" using 1(3) by (cases k) auto
    have "n < b * b ^ j" using 1(4) k by simp
    then have d: "n div b < b ^ j" using 1(2) by (simp add: less_mult_imp_div_less mult.commute)
    have "j \<noteq> 0"
    proof
      assume "j = 0"
      then have "n div b = 0" using d by simp
      then show False using False 1(2) by (simp add: div_eq_0_iff)
    qed
    then have "length (digits_of b (n div b)) \<le> j"
      using 1(1) [of j] False 1(2) d by simp
    then show ?thesis using False 1(2) k by (simp add: digits_of.simps [of b n])
  qed
qed

lemma length_digits_of_gt:
  "2 \<le> b \<Longrightarrow> b ^ k \<le> n \<Longrightarrow> k < length (digits_of b n)"
proof (induction b n arbitrary: k rule: digits_of.induct)
  case (1 b n)
  show ?case
  proof (cases k)
    case 0
    have "digits_of b n \<noteq> []" by (simp add: digits_of.simps [of b n])
    then show ?thesis using 0 by simp
  next
    case (Suc j)
    have bn: "b \<le> n"
    proof -
      have "b ^ 1 \<le> b ^ k" using 1(2) Suc by (intro power_increasing) simp_all
      then show ?thesis using 1(3) by simp
    qed
    have "b * b ^ j \<le> n" using 1(3) Suc by simp
    then have "b ^ j \<le> n div b"
      using 1(2) by (simp add: less_eq_div_iff_mult_less_eq mult.commute)
    then have "j < length (digits_of b (n div b))"
      using 1(1) [of j] bn 1(2) by simp
    then show ?thesis using bn 1(2) Suc by (simp add: digits_of.simps [of b n])
  qed
qed

lemma within_limit:
  assumes "0 \<le> n" and "L = 0 \<or> n < 10 ^ L"
  shows "\<not> exceeds_limit L (length (digits_of 10 (nat n)))"
proof (cases "L = 0")
  case True
  then show ?thesis by (simp add: exceeds_limit_def)
next
  case False
  then have "n < 10 ^ L" using assms(2) by simp
  then have "nat n < 10 ^ L" using assms(1) by (simp add: nat_less_iff)
  then have "length (digits_of 10 (nat n)) \<le> L"
    using False by (intro length_digits_of_le) simp_all
  then show ?thesis by (simp add: exceeds_limit_def)
qed

lemma beyond_limit:
  assumes "0 < L" and "10 ^ L \<le> n"
  shows "exceeds_limit L (length (digits_of 10 (nat n)))"
proof -
  have "(10::nat) ^ L \<le> nat n" using assms(2) by (simp add: le_nat_iff)
  then have "L < length (digits_of 10 (nat n))" by (intro length_digits_of_gt) simp_all
  then show ?thesis using assms(1) by (simp add: exceeds_limit_def)
qed

lemma str_int_nonneg:
  assumes "0 \<le> n"
  shows "str_int L n =
     (if exceeds_limit L (length (digits_of 10 (nat n))) then Inl ValueError
      else Inr (digits_of 10 (nat n)))"
  using assms by (simp add: str_int_def Let_def)

lemma str_int_0: "str_int L 0 = Inr ''0''"
proof -
  have "digits_of 10 0 = ''0''" by code_simp
  then show ?thesis by (auto simp: str_int_def Let_def exceeds_limit_def)
qed

lemma upper_char_decimal:
  "digit_value c < 10 \<Longrightarrow> upper_char c = c \<and> is_numeric_char c \<and> c \<noteq> CHR ''X''"
proof -
  assume "digit_value c < 10"
  then have "upper_char c = c \<and> is_decimal_digit c \<and> c \<noteq> CHR ''X''"
    by (auto simp: digit_value_def upper_char_def is_decimal_digit_def Let_def split: if_splits)
  then show ?thesis by (simp add: is_numeric_char_def)
qed

lemma upper_char_fixed_hex:
  assumes "is_hex_digit c" and "upper_char c = c"
  shows "is_upper_hex_digit c"
proof (rule ccontr)
  assume "\<not> is_upper_hex_digit c"
  then have "c \<in> set ''abcdef''"
    using assms(1) by (auto simp: is_hex_digit_def is_upper_hex_digit_def)
  then have r: "97 \<le> (of_char c :: nat) \<and> (of_char c :: nat) \<le> 122" by auto
  then have "upper_char c = char_of (of_char c - 32 :: nat)"
    by (simp add: upper_char_def Let_def)
  then have "(of_char (upper_char c) :: nat) = (of_char c - 32) mod 256" by simp
  then have "(of_char c :: nat) = of_char c - 32" using assms(2) r by simp
  then show False using r by arith
qed

lemma upper_char_hex: "is_hex_digit c \<Longrightarrow> digit_value (upper_char c) < 16"
  by (auto simp: is_hex_digit_def digit_value_def upper_char_def Let_def)

lemma upper_char_upper_hex: "is_upper_hex_digit c \<Longrightarrow> upper_char c = c"
  by (auto simp: is_upper_hex_digit_def upper_char_def Let_def)

lemma no_X_no_prefix: "CHR ''X'' \<notin> set s \<Longrightarrow> take (length HEX_PREFIX) s \<noteq> HEX_PREFIX"
proof
  assume a: "CHR ''X'' \<notin> set s" and b: "take (length HEX_PREFIX) s = HEX_PREFIX"
  have "CHR ''X'' \<in> set HEX_PREFIX" by (simp add: HEX_PREFIX_def)
  then have "CHR ''X'' \<in> set (take (length HEX_PREFIX) s)" by (simp only: b)
  then show False using a set_take_subset [of "length HEX_PREFIX" s] by blast
qed

lemma even_ensure_even_length: "even (length (ensure_even_length s))"
  by (auto simp: ensure_even_length_def odd_iff_mod_2_eq_one)

lemma foldl_leading_zero:
  "foldl (\<lambda>a c. a * b + digit_value c) 0 (CHR ''0'' # s) = foldl (\<lambda>a c. a * b + digit_value c) 0 s"
  by (simp add: digit_value_def)

lemma prepare_hexadecimal_limit: "prepare_hexadecimal L s = prepare_hexadecimal 0 s"
  unfolding prepare_hexadecimal_def by (simp only: int_of_str_16 [of L])

lemma prepare_hex_literal:
  assumes "valid_hex h" and "p = ''0X'' \<or> p = ''0x''"
  shows "prepare_argument L (ArgStr (p @ h)) = Inr (ensure_even_length (upper h))"
proof -
  have "upper ''0X'' = ''0X''" and "upper ''0x'' = ''0X''" by code_simp+
  then have "upper p = ''0X''" using assms(2) by auto
  then have up: "upper (p @ h) = ''0X'' @ upper h" by (simp add: upper_def)
  let ?e = "ensure_even_length (upper h)"
  have e1: "\<forall>c\<in>set ?e. digit_value c < 16"
    using assms(1) upper_char_hex
    by (auto simp: valid_hex_def list_all_iff upper_def ensure_even_length_def digit_value_def)
  have e2: "?e \<noteq> []" using assms(1) by (simp add: valid_hex_def upper_def ensure_even_length_def)
  obtain v where "int_of_str L 16 ?e = Inr v"
    using int_of_str_digits [where base = 16 and L = L, OF e2 e1] by simp
  then show ?thesis
    by (simp add: prepare_argument_def up HEX_PREFIX_def prepare_hexadecimal_def)
qed

lemma prepare_argument_nonneg:
  assumes "0 \<le> n" and "\<not> exceeds_limit L (length (digits_of 10 (nat n)))"
  shows "prepare_argument L (ArgInt n) = Inr (ensure_even_length (digits_of 16 (nat n)))"
proof -
  let ?ds = "digits_of 10 (nat n)" and ?hs = "digits_of 16 (nat n)"
  have d: "foldl (\<lambda>a c. a * 10 + digit_value c) 0 ?ds = nat n"
    "\<forall>c\<in>set ?ds. digit_value c < 10" "?ds \<noteq> []"
    using foldl_digits_of [of 10 "nat n"] by auto
  have str: "str_int L n = Inr ?ds" using assms by (simp add: str_int_nonneg)
  have up: "upper ?ds = ?ds"
    unfolding upper_def using d(2) upper_char_decimal by (intro map_idI) blast
  have "CHR ''X'' \<notin> set ?ds" using d(2) upper_char_decimal by blast
  then have np: "take (length HEX_PREFIX) ?ds \<noteq> HEX_PREFIX" by (rule no_X_no_prefix)
  have num: "isnumeric ?ds"
    using d(2,3) upper_char_decimal by (auto simp: isnumeric_def list_all_iff)
  have parse: "int_of_str L 10 ?ds = Inr n"
    using int_of_str_digits [where base = 10 and L = L, OF d(3) d(2)] d(1) assms by simp
  have hex: "drop (length HEX_PREFIX) (hex_int n) = ?hs"
    using assms(1) by (simp add: hex_int_def HEX_PREFIX_def)
  show ?thesis
    by (simp add: prepare_argument_def str up np prepare_decimal_def num parse hex)
qed

lemma prepare_argument_beyond_limit:
  assumes "0 < L" and "10 ^ L \<le> n"
  shows "prepare_argument L (ArgInt n) = Inl ValueError"
proof -
  have "(0::int) \<le> 10 ^ L" by (rule zero_le_power) simp
  then have n: "0 \<le> n" using assms(2) by (rule order_trans)
  have "str_int L n = Inl ValueError"
    using beyond_limit [OF assms] by (simp add: str_int_nonneg [OF n])
  then show ?thesis by (simp add: prepare_argument_def)
qed

lemma prepare_argument_5: "prepare_argument L (ArgInt 5) = Inr ''05''"
proof -
  have d: "digits_of 10 (nat 5) = ''5''" and h: "digits_of 16 (nat 5) = ''5''" by code_simp+
  have "\<not> exceeds_limit L (length (digits_of 10 (nat 5)))"
    unfolding d by (auto simp: exceeds_limit_def)
  then have "prepare_argument L (ArgInt 5) = Inr (ensure_even_length (digits_of 16 (nat 5)))"
    by (intro prepare_argument_nonneg) simp_all
  then show ?thesis unfolding h by (simp add: ensure_even_length_def)
qed

lemma prepare_argument_0XFF: "prepare_argument L (ArgStr ''0XFF'') = Inr ''FF''"
proof -
  have v: "valid_hex ''FF''" by (simp add: valid_hex_def is_hex_digit_def)
  have u: "ensure_even_length (upper ''FF'') = ''FF''" by code_simp
  show ?thesis using prepare_hex_literal [OF v, of "''0X''" L] u by simp
qed

lemma prepare_argument_signed_hex: "prepare_argument L (ArgStr ''0x-f'') = Inr ''-F''"
proof -
  have u: "upper ''0x-f'' = ''0X-F''" by code_simp
  have h: "prepare_hexadecimal 0 ''0X-F'' = Inr ''-F''" by code_simp
  show ?thesis
    by (simp add: prepare_argument_def u HEX_PREFIX_def prepare_hexadecimal_limit [of L] h)
qed

lemma prepare_argument_signed_decimal:
  "prepare_argument L (ArgStr ''-15'') = Inl (UnknownArgumentFormat ''-15'')"
proof -
  have u: "upper ''-15'' = ''-15''" by code_simp
  have n: "\<not> isnumeric ''-15''" by code_simp
  show ?thesis by (simp add: prepare_argument_def u HEX_PREFIX_def prepare_decimal_def n)
qed

section \<open>Facts about address derivation\<close>

lemma from_bytes_little_bytes:
  "0 \<le> n \<Longrightarrow> n < 256 ^ len \<Longrightarrow>
   int (from_bytes_little (map (\<lambda>k. word_of_int (n div 256 ^ k) :: byte) [0..<len])) = n"
proof (induction len arbitrary: n)
  case 0
  then show ?case by (simp add: from_bytes_little_def)
next
  case (Suc len)
  have d: "0 \<le> n div 256" "n div 256 < 256 ^ len" using Suc.prems by auto
  have hd: "int (unat (word_of_int n :: byte)) = n mod 256"
    by (simp add: unsigned_of_int take_bit_eq_mod)
  have "int (from_bytes_little (map (\<lambda>k. word_of_int (n div 256 ^ k) :: byte) [0..<Suc len]))
      = int (unat (word_of_int n :: byte))
        + 256 * int (from_bytes_little (map (\<lambda>k. word_of_int (n div 256 div 256 ^ k) :: byte) [0..<len]))"
    unfolding map_upt_Suc from_bytes_little_def by (simp add: zdiv_zmult2_eq)
  also have "\<dots> = n mod 256 + 256 * (n div 256)"
    using Suc.IH [OF d] hd by simp
  finally show ?case by simp
qed

lemma to_bytes_little_fits:
  assumes "0 \<le> n" and "n < 256 ^ len"
  shows "\<exists>bs. to_bytes_little len n = Inr bs \<and> length bs = len \<and> int (from_bytes_little bs) = n"
  using assms from_bytes_little_bytes [OF assms] by (simp add: to_bytes_little_def)

lemma compute_address_owner:
  assumes "owner self = Some ow" and "to_bytes_little 8 (account_nonce ow) = Inr nonce_bytes"
  shows "compute_address keccak self =
     Inr (self\<lparr>address := replicate 8 0 @ [5, 0]
            @ take 20 (drop 10 (keccak (account_address ow @ nonce_bytes)))
            @ drop 30 (account_address ow)\<rparr>)"
  using assms by (simp add: compute_address_def Let_def)

lemma compute_address_Inr:
  assumes "compute_address keccak self = Inr self'"
  shows "\<exists>ow nonce_bytes. owner self = Some ow
      \<and> to_bytes_little 8 (account_nonce ow) = Inr nonce_bytes
      \<and> address self' = replicate 8 0 @ [5, 0]
           @ take 20 (drop 10 (keccak (account_address ow @ nonce_bytes)))
           @ drop 30 (account_address ow)"
  using assms
  by (auto simp: compute_address_def Let_def split: sum.splits option.splits)

lemma derived_not_zero: "replicate 8 0 @ [5, 0] @ xs \<noteq> replicate 32 (0 :: byte)"
proof
  assume "replicate 8 0 @ [5, 0] @ xs = replicate 32 (0 :: byte)"
  then have "(replicate 8 0 @ [5, 0] @ xs) ! 8 = replicate 32 (0 :: byte) ! 8" by simp
  then show False by (simp add: nth_append)
qed

section \<open>Facts about the transaction builders\<close>

lemma deploy_Inr:
  assumes "deploy ext self ow arguments gas_price gas_limit val chain ver = (self', Inr tx)"
  shows "\<exists>g value_text tx_data. gas_price = Some g
      \<and> compute_address (keccak256 ext) (self\<lparr>owner := Some ow\<rparr>) = Inr self'
      \<and> str_int (int_max_str_digits ext) (or_default val 0) = Inr value_text
      \<and> prepare_deploy_transaction_data (int_max_str_digits ext) (VM_TYPE_WASM_VM ext)
            self' arguments = Inr tx_data
      \<and> tx = \<lparr>nonce = account_nonce ow, value = value_text,
               sender = bech32 ext (account_address ow),
               receiver = bech32 ext (address_zero ext),
               gasPrice = g, gasLimit = gas_limit, data = tx_data, chainID = chain,
               version = ver, signature = sign_transaction ext ow
                 \<lparr>nonce = account_nonce ow, value = value_text,
                  sender = bech32 ext (account_address ow),
                  receiver = bech32 ext (address_zero ext),
                  gasPrice = g, gasLimit = gas_limit, data = tx_data, chainID = chain,
                  version = ver, signature = []\<rparr>\<rparr>"
  using assms
  by (auto simp: deploy_def Let_def int_of_optional_def sign_def split: sum.splits option.splits)

lemma execute_Inr:
  assumes "execute ext self cl function arguments gas_price gas_limit val chain ver = (self', Inr tx)"
  shows "\<exists>g value_text tx_data. gas_price = Some g
      \<and> self' = self\<lparr>caller := Some cl\<rparr>
      \<and> str_int (int_max_str_digits ext) (or_default val 0) = Inr value_text
      \<and> prepare_execute_transaction_data (int_max_str_digits ext) function arguments
            = Inr tx_data
      \<and> tx = \<lparr>nonce = account_nonce cl, value = value_text,
               sender = bech32 ext (account_address cl),
               receiver = bech32 ext (address self),
               gasPrice = g, gasLimit = gas_limit, data = tx_data, chainID = chain,
               version = ver, signature = sign_transaction ext cl
                 \<lparr>nonce = account_nonce cl, value = value_text,
                  sender = bech32 ext (account_address cl),
                  receiver = bech32 ext (address self),
                  gasPrice = g, gasLimit = gas_limit, data = tx_data, chainID = chain,
                  version = ver, signature = []\<rparr>\<rparr>"
  using assms
  by (auto simp: execute_def Let_def int_of_optional_def sign_def split: sum.splits option.splits)

lemma upgrade_Inr:
  assumes "upgrade ext self ow arguments gas_price gas_limit val chain ver = (self', Inr tx)"
  shows "\<exists>value_text tx_data. self' = self\<lparr>owner := Some ow\<rparr>
      \<and> str_int (int_max_str_digits ext) (or_default val 0) = Inr value_text
      \<and> prepare_upgrade_transaction_data (int_max_str_digits ext) self' arguments
            = Inr tx_data
      \<and> tx = \<lparr>nonce = account_nonce ow, value = value_text,
               sender = bech32 ext (account_address ow),
               receiver = bech32 ext (address self),
               gasPrice = or_default gas_price (DEFAULT_GAS_PRICE ext),
               gasLimit = gas_limit, data = tx_data, chainID = chain,
               version = ver, signature = sign_transaction ext ow
                 \<lparr>nonce = account_nonce ow, value = value_text,
                  sender = bech32 ext (account_address ow),
                  receiver = bech32 ext (address self),
                  gasPrice = or_default gas_price (DEFAULT_GAS_PRICE ext),
                  gasLimit = gas_limit, data = tx_data, chainID = chain,
                  version = ver, signature = []\<rparr>\<rparr>"
  using assms
  by (auto simp: upgrade_def Let_def sign_def split: sum.splits)

lemma deploy_example:
  "deploy example_externals example_contract example_owner [] (Some 1) 2 None ''T'' 1 =
     (example_contract\<lparr>owner := Some example_owner,
        address := replicate 8 0 @ [5, 0]
          @ take 20 (drop 10 (keccak256 example_externals
               (account_address example_owner @ map (\<lambda>k. word_of_int (7 div 256 ^ k)) [0..<8])))
          @ drop 30 (account_address example_owner)\<rparr>,
      Inr \<lparr>nonce = 7, value = ''0'', sender = bech32 example_externals (account_address example_owner),
        receiver = bech32 example_externals (address_zero example_externals),
        gasPrice = 1, gasLimit = 2, data = ''AABB@0500@0100'', chainID = ''T'', version = 1,
        signature = ''AABB@0500@0100''\<rparr>)"
proof -
  have n: "account_nonce example_owner = 7" by (simp add: example_owner_def)
  have b: "to_bytes_little 8 7 = Inr (map (\<lambda>k. word_of_int (7 div 256 ^ k)) [0..<8])"
    by (simp add: to_bytes_little_def)
  have z: "str_int (int_max_str_digits example_externals) 0 = Inr ''0''" by (rule str_int_0)
  have s: "sign_transaction example_externals = (\<lambda>account tx. data tx)"
    and v: "VM_TYPE_WASM_VM example_externals = ''0500''"
    by (simp_all add: example_externals_def)
  have c: "bytecode example_contract = ''AABB''"
    "metadata example_contract = \<lparr>upgradeable = True, payable = False\<rparr>"
    by (simp_all add: example_contract_def)
  show ?thesis
    by (simp add: deploy_def compute_address_def Let_def n b int_of_optional_def
        prepare_deploy_transaction_data_def to_hex_def or_default_def z sign_def s v c)
qed

lemma deploy_example_zero:
  "snd (deploy example_externals example_contract example_owner [] (Some 0) 2 None ''T'' 1) =
      Inr \<lparr>nonce = 7, value = ''0'', sender = bech32 example_externals (account_address example_owner),
        receiver = bech32 example_externals (address_zero example_externals),
        gasPrice = 0, gasLimit = 2, data = ''AABB@0500@0100'', chainID = ''T'', version = 1,
        signature = ''AABB@0500@0100''\<rparr>"
proof -
  have n: "account_nonce example_owner = 7" by (simp add: example_owner_def)
  have b: "to_bytes_little 8 7 = Inr (map (\<lambda>k. word_of_int (7 div 256 ^ k)) [0..<8])"
    by (simp add: to_bytes_little_def)
  have z: "str_int (int_max_str_digits example_externals) 0 = Inr ''0''" by (rule str_int_0)
  have s: "sign_transaction example_externals = (\<lambda>account tx. data tx)"
    and v: "VM_TYPE_WASM_VM example_externals = ''0500''"
    by (simp_all add: example_externals_def)
  have c: "bytecode example_contract = ''AABB''"
    "metadata example_contract = \<lparr>upgradeable = True, payable = False\<rparr>"
    by (simp_all add: example_contract_def)
  show ?thesis
    by (simp add: deploy_def compute_address_def Let_def n b int_of_optional_def
        prepare_deploy_transaction_data_def to_hex_def or_default_def z sign_def s v c)
qed

lemma upgrade_example:
  "upgrade example_externals example_contract example_owner [] None 2 None ''T'' 1 =
     (example_contract\<lparr>owner := Some example_owner\<rparr>,
      Inr \<lparr>nonce = 7, value = ''0'', sender = bech32 example_externals (account_address example_owner),
        receiver = bech32 example_externals (address example_contract),
        gasPrice = 1000000000, gasLimit = 2, data = ''upgradeContract@AABB@0100'', chainID = ''T'',
        version = 1, signature = ''upgradeContract@AABB@0100''\<rparr>)"
proof -
  have n: "account_nonce example_owner = 7" by (simp add: example_owner_def)
  have z: "str_int (int_max_str_digits example_externals) 0 = Inr ''0''" by (rule str_int_0)
  have s: "sign_transaction example_externals = (\<lambda>account tx. data tx)"
    and g: "DEFAULT_GAS_PRICE example_externals = 1000000000"
    by (simp_all add: example_externals_def)
  have c: "bytecode example_contract = ''AABB''"
    "metadata example_contract = \<lparr>upgradeable = True, payable = False\<rparr>"
    by (simp_all add: example_contract_def)
  show ?thesis
    by (simp add: upgrade_def Let_def n prepare_upgrade_transaction_data_def to_hex_def
        or_default_def z sign_def s g c)
qed

lemma upgrade_example_zero:
  "snd (upgrade example_externals example_contract example_owner [] (Some 0) 2 None ''T'' 1) =
      Inr \<lparr>nonce = 7, value = ''0'', sender = bech32 example_externals (account_address example_owner),
        receiver = bech32 example_externals (address example_contract),
        gasPrice = 1000000000, gasLimit = 2, data = ''upgradeContract@AABB@0100'', chainID = ''T'',
        version = 1, signature = ''upgradeContract@AABB@0100''\<rparr>"
proof -
  have n: "account_nonce example_owner = 7" by (simp add: example_owner_def)
  have z: "str_int (int_max_str_digits example_externals) 0 = Inr ''0''" by (rule str_int_0)
  have s: "sign_transaction example_externals = (\<lambda>account tx. data tx)"
    and g: "DEFAULT_GAS_PRICE example_externals = 1000000000"
    by (simp_all add: example_externals_def)
  have c: "bytecode example_contract = ''AABB''"
    "metadata example_contract = \<lparr>upgradeable = True, payable = False\<rparr>"
    by (simp_all add: example_contract_def)
  show ?thesis
    by (simp add: upgrade_def Let_def n prepare_upgrade_transaction_data_def to_hex_def
        or_default_def z sign_def s g c)
qed

lemma execute_example:
  "execute example_externals example_contract example_owner ''add'' [] (Some 0) 2 None ''T'' 1 =
     (example_contract\<lparr>caller := Some example_owner\<rparr>,
      Inr \<lparr>nonce = 7, value = ''0'', sender = bech32 example_externals (account_address example_owner),
        receiver = bech32 example_externals (address example_contract),
        gasPrice = 0, gasLimit = 2, data = ''add'', chainID = ''T'',
        version = 1, signature = ''add''\<rparr>)"
proof -
  have n: "account_nonce example_owner = 7" by (simp add: example_owner_def)
  have z: "str_int (int_max_str_digits example_externals) 0 = Inr ''0''" by (rule str_int_0)
  have s: "sign_transaction example_externals = (\<lambda>account tx. data tx)"
    by (simp_all add: example_externals_def)
  show ?thesis
    by (simp add: execute_def Let_def n prepare_execute_transaction_data_def int_of_optional_def
        or_default_def z sign_def s)
qed

lemma example_receivers_differ:
  "bech32 example_externals (address_zero example_externals)
     \<noteq> bech32 example_externals (address example_contract)"
proof -
  have "bytes_hex (replicate 32 0) \<noteq> bytes_hex (replicate 8 0 @ [5, 0] @ replicate 22 1)"
    by code_simp
  then show ?thesis by (simp add: example_externals_def example_contract_def)
qed

section \<open>Facts about query results\<close>

lemma foldl_bytes_hex:
  "foldl (\<lambda>a c. a * 16 + digit_value c) acc (bytes_hex bs) = foldl (\<lambda>a b. a * 256 + unat b) acc bs"
proof (induction bs arbitrary: acc)
  case Nil
  then show ?case by (simp add: bytes_hex_def)
next
  case (Cons b bs)
  have lt: "unat b < 256" using unsigned_less [of b] by simp
  then have q: "unat b div 16 < 16" and r: "unat b mod 16 < 16" by auto
  have step: "(acc * 16 + unat b div 16) * 16 + unat b mod 16 = acc * 256 + unat b"
    by (simp add: algebra_simps)
  have "bytes_hex (b # bs) = digit_char (unat b div 16) # digit_char (unat b mod 16) # bytes_hex bs"
    by (simp add: bytes_hex_def)
  then have "foldl (\<lambda>a c. a * 16 + digit_value c) acc (bytes_hex (b # bs)) =
      foldl (\<lambda>a c. a * 16 + digit_value c) ((acc * 16 + unat b div 16) * 16 + unat b mod 16) (bytes_hex bs)"
    by (simp add: digit_value_digit_char [OF q] digit_value_digit_char [OF r])
  also have "\<dots> = foldl (\<lambda>a c. a * 16 + digit_value c) (acc * 256 + unat b) (bytes_hex bs)"
    by (simp only: step)
  also have "\<dots> = foldl (\<lambda>a b. a * 256 + unat b) (acc * 256 + unat b) bs"
    by (rule Cons)
  finally show ?case by simp
qed

lemma bytes_hex_digits: "\<forall>c\<in>set (bytes_hex bs). digit_value c < 16"
proof (induction bs)
  case Nil
  then show ?case by (simp add: bytes_hex_def)
next
  case (Cons b bs)
  have lt: "unat b < 256" using unsigned_less [of b] by simp
  then have q: "unat b div 16 < 16" and r: "unat b mod 16 < 16" by auto
  have "bytes_hex (b # bs) = digit_char (unat b div 16) # digit_char (unat b mod 16) # bytes_hex bs"
    by (simp add: bytes_hex_def)
  then show ?case
    using Cons q r by (simp add: digit_value_digit_char)
qed

lemma int_of_str_bytes_hex:
  assumes "bs \<noteq> []"
  shows "int_of_str L 16 (bytes_hex bs) = Inr (int (from_bytes_big bs))"
proof -
  have ne: "bytes_hex bs \<noteq> []" using assms by (cases bs) (simp_all add: bytes_hex_def)
  show ?thesis
    using int_of_str_digits [where base = 16 and L = L, OF ne bytes_hex_digits]
    by (simp add: foldl_bytes_hex from_bytes_big_def)
qed

lemma int_of_str_empty: "int_of_str L base [] = Inl ValueError"
  by (simp add: int_of_str_def skip_sign_def skip_prefix_def)

lemma interpret_return_data_Result:
  assumes "interpret_return_data d = Result r"
  shows "\<exists>s bs. d = Some s \<and> s \<noteq> [] \<and> b64decode s = Inr bs \<and> bs \<noteq> []
      \<and> r = \<lparr>base64 = s, hex = bytes_hex bs, number = int (from_bytes_big bs)\<rparr>"
proof -
  obtain s where d: "d = Some s" and s: "s \<noteq> []"
    using assms by (cases d) (auto simp: interpret_return_data_def split: if_splits)
  obtain bs where bs: "b64decode s = Inr bs"
    using assms d s by (cases "b64decode s") (auto simp: interpret_return_data_def)
  obtain n where n: "int_of_str 0 16 (bytes_hex bs) = Inr n"
    using assms d s bs
    by (cases "int_of_str 0 16 (bytes_hex bs)") (auto simp: interpret_return_data_def)
  have ne: "bs \<noteq> []"
  proof
    assume "bs = []"
    then have "bytes_hex bs = []" by (simp add: bytes_hex_def)
    then show False using n int_of_str_empty by simp
  qed
  have "n = int (from_bytes_big bs)" using int_of_str_bytes_hex [OF ne] n by simp
  then have "r = \<lparr>base64 = s, hex = bytes_hex bs, number = int (from_bytes_big bs)\<rparr>"
    using assms d s bs n by (simp add: interpret_return_data_def)
  then show ?thesis using d s bs ne by blast
qed

lemma interpret_return_data_decoded:
  assumes "b64decode s = Inr bs" and "bs \<noteq> []"
  shows "interpret_return_data (Some s) =
     Result \<lparr>base64 = s, hex = bytes_hex bs, number = int (from_bytes_big bs)\<rparr>"
proof -
  have "s \<noteq> []"
  proof
    assume "s = []"
    then have "b64decode s = Inr []" by (simp add: b64decode_def)
    then show False using assms by simp
  qed
  then show ?thesis
    using assms(1) int_of_str_bytes_hex [OF assms(2)] by (simp add: interpret_return_data_def)
qed

lemma interpret_return_data_undecodable:
  assumes "b64decode s = Inl e"
  shows "interpret_return_data (Some s) = PyNone"
proof -
  have "s \<noteq> []"
  proof
    assume "s = []"
    then have "b64decode s = Inr []" by (simp add: b64decode_def)
    then show False using assms by simp
  qed
  then show ?thesis using assms by (simp add: interpret_return_data_def)
qed

lemma b64decode_AQ: "b64decode ''AQ=='' = Inr [1]"
  by code_simp

lemma b64decode_A: "b64decode ''A'' = Inl BinasciiError"
  by code_simp

lemma interpret_return_data_AQ:
  "interpret_return_data (Some ''AQ=='') = Result \<lparr>base64 = ''AQ=='', hex = ''01'', number = 1\<rparr>"
proof -
  have h: "bytes_hex [1] = ''01''" by code_simp
  have n: "from_bytes_big [1] = 1" by (simp add: from_bytes_big_def)
  show ?thesis using interpret_return_data_decoded [OF b64decode_AQ] h n by simp
qed

lemma query_answering:
  assumes "prepare_arguments (int_max_str_digits ext) arguments = Inr prepared"
    and "str_int (int_max_str_digits ext) val = Inr value_text"
  shows "query ext self (answering [(''data'', [(''returnData'', entries)])]) function arguments val cl =
     Inr (map interpret_return_data entries)"
  using assms by (simp add: query_def query_detailed_def answering_def dict_get_def)

section \<open>Properties\<close>

text \<open>
  C1, as the code has it. For the bytecode \<^verbatim>\<open>AABB\<close>, the metadata (upgradeable, not
  payable) and the arguments \<open>5\<close> and \<^verbatim>\<open>0XFF\<close>, the deploy data is the bytecode, the VM
  marker, the metadata \<^verbatim>\<open>0100\<close> and the encoded arguments \<^verbatim>\<open>05\<close> and \<^verbatim>\<open>FF\<close>, joined by
  \<^verbatim>\<open>@\<close>, whatever the VM marker and the interpreter's limit on decimal digits are: the
  hex literal keeps the upper case that \<^verbatim>\<open>_prepare_argument\<close> gave it.
\<close>

theorem C1_deploy_data:
  "prepare_deploy_transaction_data max_digits vm
     \<lparr>address = a, bytecode = ''AABB'', metadata = \<lparr>upgradeable = True, payable = False\<rparr>,
      owner = ow, caller = cl\<rparr>
     [ArgInt 5, ArgStr ''0XFF'']
   = Inr (''AABB@'' @ vm @ ''@0100@05@FF'')"
  by (simp add: prepare_deploy_transaction_data_def to_hex_def prepare_argument_5
      prepare_argument_0XFF)

text \<open>
  The statement with the last field in lower case fails: with the marker \<^verbatim>\<open>0500\<close> the data
  is not \<^verbatim>\<open>AABB@0500@0100@05@ff\<close>.
\<close>

theorem C1_lowercase_counterexample:
  "prepare_deploy_transaction_data 4300 ''0500'' example_contract [ArgInt 5, ArgStr ''0XFF'']
   \<noteq> Inr ''AABB@0500@0100@05@ff''"
  by (simp add: prepare_deploy_transaction_data_def example_contract_def to_hex_def
      prepare_argument_5 prepare_argument_0XFF)

text \<open>
  C2, as the code has it. When the arguments and the value of a query can be written as
  text, the query returns one result for each entry of the return-data list of the answer
  (the list under \<^verbatim>\<open>returnData\<close>, or the one under \<^verbatim>\<open>ReturnData\<close> when the first is missing
  or empty), in order, each entry interpreted on its own. An entry that cannot be base64-decoded gives
  \<^verbatim>\<open>None\<close>, the same value that a \<^verbatim>\<open>null\<close> entry gives, and does not stop the
  interpretation of the others; an entry that decodes to at least one byte gives a
  \<^verbatim>\<open>QueryResult\<close>.
\<close>

theorem C2_undecodable_entry:
  assumes "prepare_arguments (int_max_str_digits ext) arguments = Inr prepared"
    and "str_int (int_max_str_digits ext) val = Inr value_text"
    and "\<forall>pl. (if dict_get (dict_get (proxy pl) ''data'' []) ''returnData'' [] \<noteq> []
               then dict_get (dict_get (proxy pl) ''data'' []) ''returnData'' []
               else dict_get (dict_get (proxy pl) ''data'' []) ''ReturnData'' []) = entries"
  shows "\<exists>results. query ext self proxy function arguments val cl = Inr results
      \<and> length results = length entries
      \<and> (\<forall>i < length entries. results ! i = interpret_return_data (entries ! i))
      \<and> (\<forall>i < length entries. entries ! i = None \<longrightarrow> results ! i = PyNone)
      \<and> (\<forall>i < length entries. \<forall>s e.
            entries ! i = Some s \<and> b64decode s = Inl e \<longrightarrow> results ! i = PyNone)
      \<and> (\<forall>i < length entries. \<forall>s bs.
            entries ! i = Some s \<and> b64decode s = Inr bs \<and> bs \<noteq> [] \<longrightarrow>
            results ! i = Result \<lparr>base64 = s, hex = bytes_hex bs, number = int (from_bytes_big bs)\<rparr>)"
proof -
  let ?results = "map interpret_return_data entries"
  have q: "query ext self proxy function arguments val cl = Inr ?results"
    using assms by (simp add: query_def query_detailed_def Let_def)
  have n: "interpret_return_data None = PyNone" by (simp add: interpret_return_data_def)
  show ?thesis
    using q n interpret_return_data_undecodable interpret_return_data_decoded
    by (intro exI [of _ ?results]) auto
qed

theorem C2_undecodable_entry_witness:
  "(\<exists>results.
      query example_externals example_contract
        (answering [(''data'', [(''returnData'', [Some ''AQ=='', Some ''A''])])]) ''get'' [] 0 None
        = Inr results
      \<and> length results = 2
      \<and> results ! 0 = Result \<lparr>base64 = ''AQ=='', hex = ''01'', number = 1\<rparr>
      \<and> results ! 1 = PyNone)
   \<and> (\<exists>results.
      query example_externals example_contract
        (answering [(''data'', [(''ReturnData'', [Some ''A'', Some ''AQ==''])])]) ''get'' [] 0 None
        = Inr results
      \<and> length results = 2
      \<and> results ! 0 = PyNone
      \<and> results ! 1 = Result \<lparr>base64 = ''AQ=='', hex = ''01'', number = 1\<rparr>)"
proof -
  let ?e1 = "[Some ''AQ=='', Some ''A'']" and ?e2 = "[Some ''A'', Some ''AQ=='']"
  let ?p1 = "answering [(''data'', [(''returnData'', ?e1)])]"
  let ?p2 = "answering [(''data'', [(''ReturnData'', ?e2)])]"
  have a1: "prepare_arguments (int_max_str_digits example_externals) [] = Inr []" by simp
  have a2: "str_int (int_max_str_digits example_externals) 0 = Inr ''0''" by (rule str_int_0)
  have b1: "\<forall>pl. (if dict_get (dict_get (?p1 pl) ''data'' []) ''returnData'' [] \<noteq> []
               then dict_get (dict_get (?p1 pl) ''data'' []) ''returnData'' []
               else dict_get (dict_get (?p1 pl) ''data'' []) ''ReturnData'' []) = ?e1"
    by (simp add: answering_def dict_get_def)
  have b2: "\<forall>pl. (if dict_get (dict_get (?p2 pl) ''data'' []) ''returnData'' [] \<noteq> []
               then dict_get (dict_get (?p2 pl) ''data'' []) ''returnData'' []
               else dict_get (dict_get (?p2 pl) ''data'' []) ''ReturnData'' []) = ?e2"
    by (simp add: answering_def dict_get_def)
  have bad: "interpret_return_data (Some ''A'') = PyNone"
    by (rule interpret_return_data_undecodable [OF b64decode_A])
  obtain r1 where r1:
    "query example_externals example_contract ?p1 ''get'' [] 0 None = Inr r1"
    "length r1 = length ?e1"
    "\<forall>i < length ?e1. r1 ! i = interpret_return_data (?e1 ! i)"
    using C2_undecodable_entry [OF a1 a2 b1, of example_contract "''get''" None] by blast
  obtain r2 where r2:
    "query example_externals example_contract ?p2 ''get'' [] 0 None = Inr r2"
    "length r2 = length ?e2"
    "\<forall>i < length ?e2. r2 ! i = interpret_return_data (?e2 ! i)"
    using C2_undecodable_entry [OF a1 a2 b2, of example_contract "''get''" None] by blast
  have one: "(1::nat) < 2" by simp
  have "r1 ! 0 = interpret_return_data (Some ''AQ=='')" using r1(3) by simp
  moreover have "r1 ! 1 = interpret_return_data (?e1 ! 1)" using r1(3) one by simp
  moreover have "r2 ! 0 = interpret_return_data (Some ''A'')" using r2(3) by simp
  moreover have "r2 ! 1 = interpret_return_data (?e2 ! 1)" using r2(3) one by simp
  ultimately show ?thesis
    using r1(1,2) r2(1,2) bad interpret_return_data_AQ by simp
qed

text \<open>
  The statement that the failing entry is reported as a variant of its own, and not as a
  generic null, fails: the answer with the undecodable entry \<^verbatim>\<open>A\<close> and the answer with a
  \<^verbatim>\<open>null\<close> entry in its place give the same list of results.
\<close>

theorem C2_generic_null_counterexample:
  "query example_externals example_contract
     (answering [(''data'', [(''returnData'', [Some ''AQ=='', Some ''A''])])]) ''get'' [] 0 None
   = Inr [Result \<lparr>base64 = ''AQ=='', hex = ''01'', number = 1\<rparr>, PyNone]
   \<and> query example_externals example_contract
     (answering [(''data'', [(''returnData'', [Some ''AQ=='', None])])]) ''get'' [] 0 None
   = Inr [Result \<lparr>base64 = ''AQ=='', hex = ''01'', number = 1\<rparr>, PyNone]"
proof -
  have a1: "prepare_arguments (int_max_str_digits example_externals) [] = Inr []" by simp
  have a2: "str_int (int_max_str_digits example_externals) 0 = Inr ''0''" by (rule str_int_0)
  have n: "interpret_return_data None = PyNone" by (simp add: interpret_return_data_def)
  show ?thesis
    using interpret_return_data_undecodable [OF b64decode_A]
    by (simp add: query_answering [OF a1 a2] interpret_return_data_AQ n)
qed

text \<open>
  C3. For every owner with a 32-byte public key and a nonce that fits 64 bits, and every
  digest function that returns 32 bytes, \<^verbatim>\<open>compute_address\<close> succeeds. The nonce is
  serialised as 8 bytes, least significant first. The address has 32 bytes: 8 zero bytes,
  the bytes \<^verbatim>\<open>05 00\<close>, the bytes 10 to 30 of the digest of the public key followed by the
  nonce bytes, and the bytes 30 to 32 of the public key, so that its last two bytes are
  those of the owner. The result is a function of the inputs, hence the same on every call.
\<close>

theorem C3_compute_address:
  assumes "owner self = Some ow"
    and "length (account_address ow) = 32"
    and "0 \<le> account_nonce ow" and "account_nonce ow < 2 ^ 64"
    and "\<forall>bs. length (keccak bs) = 32"
  shows "\<exists>nonce_bytes self'.
      to_bytes_little 8 (account_nonce ow) = Inr nonce_bytes
      \<and> length nonce_bytes = 8
      \<and> int (from_bytes_little nonce_bytes) = account_nonce ow
      \<and> compute_address keccak self = Inr self'
      \<and> address self' = replicate 8 0 @ [5, 0]
           @ take 20 (drop 10 (keccak (account_address ow @ nonce_bytes)))
           @ drop 30 (account_address ow)
      \<and> length (address self') = 32
      \<and> take 8 (address self') = replicate 8 0
      \<and> take 2 (drop 8 (address self')) = [5, 0]
      \<and> take 20 (drop 10 (address self')) = take 20 (drop 10 (keccak (account_address ow @ nonce_bytes)))
      \<and> drop 30 (address self') = drop 30 (account_address ow)"
proof -
  have "account_nonce ow < 256 ^ 8" using assms(4) by simp
  then obtain nonce_bytes where nb: "to_bytes_little 8 (account_nonce ow) = Inr nonce_bytes"
    "length nonce_bytes = 8" "int (from_bytes_little nonce_bytes) = account_nonce ow"
    using to_bytes_little_fits [OF assms(3)] by blast
  let ?digest = "keccak (account_address ow @ nonce_bytes)"
  let ?addr = "replicate 8 0 @ [5, 0] @ take 20 (drop 10 ?digest) @ drop 30 (account_address ow)"
  have c: "compute_address keccak self = Inr (self\<lparr>address := ?addr\<rparr>)"
    by (rule compute_address_owner [OF assms(1) nb(1)])
  have l: "length ?digest = 32" using assms(5) by simp
  have "length ?addr = 32 \<and> take 8 ?addr = replicate 8 0 \<and> take 2 (drop 8 ?addr) = [5, 0]
      \<and> take 20 (drop 10 ?addr) = take 20 (drop 10 ?digest)
      \<and> drop 30 ?addr = drop 30 (account_address ow)"
    using l assms(2) by simp
  then show ?thesis using nb c by simp
qed

theorem C3_compute_address_witness:
  "\<exists>self'. compute_address (keccak256 example_externals) (example_contract\<lparr>owner := Some example_owner\<rparr>) = Inr self'
     \<and> length (address self') = 32
     \<and> take 10 (address self') = [0, 0, 0, 0, 0, 0, 0, 0, 5, 0]
     \<and> drop 30 (address self') = [2, 3]"
proof -
  have a1: "owner (example_contract\<lparr>owner := Some example_owner\<rparr>) = Some example_owner" by simp
  have a2: "length (account_address example_owner) = 32" by (simp add: example_owner_def)
  have a3: "0 \<le> account_nonce example_owner" by (simp add: example_owner_def)
  have a4: "account_nonce example_owner < 2 ^ 64" by (simp add: example_owner_def)
  have a5: "\<forall>bs. length (keccak256 example_externals bs) = 32" by (simp add: example_externals_def)
  obtain self' where s:
    "compute_address (keccak256 example_externals) (example_contract\<lparr>owner := Some example_owner\<rparr>) = Inr self'"
    "length (address self') = 32"
    "take 8 (address self') = replicate 8 0"
    "take 2 (drop 8 (address self')) = [5, 0]"
    "drop 30 (address self') = drop 30 (account_address example_owner)"
    using C3_compute_address [OF a1 a2 a3 a4 a5] by blast
  have "take 10 (address self') = take 8 (address self') @ take 2 (drop 8 (address self'))"
    using take_add [of 8 2 "address self'"] by simp
  then have t: "take 10 (address self') = [0, 0, 0, 0, 0, 0, 0, 0, 5, 0]"
    using s(3,4) by (simp add: numeral_eq_Suc)
  have d: "drop 30 (account_address example_owner) = [2, 3]" by (simp add: example_owner_def)
  show ?thesis using s(1,2) t d s(5) by simp
qed

text \<open>
  C4. The encoder is to reject every text that is neither a hex literal under the prefix
  nor made of decimal digits, a sign character included. The decimal branch does so: the
  text \<^verbatim>\<open>-15\<close> raises \<^verbatim>\<open>UnknownArgumentFormat\<close>. The hex branch checks its text with
  \<^verbatim>\<open>int(argument, 16)\<close>, which admits a sign: the argument \<^verbatim>\<open>0x-f\<close> is accepted, and
  the text \<^verbatim>\<open>-F\<close>, which is no hex string, is returned as its encoding.
\<close>

theorem C4_signed_hex_accepted:
  "prepare_argument max_digits (ArgStr ''0x-f'') = Inr ''-F''
   \<and> prepare_argument max_digits (ArgStr ''-15'') = Inl (UnknownArgumentFormat ''-15'')"
  by (simp add: prepare_argument_signed_hex prepare_argument_signed_decimal)

text \<open>
  C5, as the code has it. For every non-negative integer \<open>n\<close> whose decimal text is within
  the interpreter's limit on decimal digits (\<open>n\<close> below ten to the power of the limit, and
  every \<open>n\<close> when the limit is 0, that is, absent or switched off), the encoder accepts
  \<open>n\<close>, reading the encoded text back in base 16 gives \<open>n\<close> again, and the encoded text has
  even length.
\<close>

theorem C5_encode_roundtrip:
  assumes "0 \<le> n" and "max_digits = 0 \<or> n < 10 ^ max_digits"
  shows "\<exists>h. prepare_argument max_digits (ArgInt n) = Inr h
      \<and> int_of_str max_digits 16 h = Inr n \<and> even (length h)"
proof -
  let ?hs = "digits_of 16 (nat n)"
  have h: "foldl (\<lambda>a c. a * 16 + digit_value c) 0 ?hs = nat n"
    "\<forall>c\<in>set ?hs. digit_value c < 16" "?hs \<noteq> []"
    using foldl_digits_of [of 16 "nat n"] by auto
  define e where "e = ensure_even_length ?hs"
  have res: "prepare_argument max_digits (ArgInt n) = Inr e"
    unfolding e_def by (rule prepare_argument_nonneg [OF assms(1) within_limit [OF assms]])
  have e1: "\<forall>c\<in>set e. digit_value c < 16"
    using h(2) by (auto simp: e_def ensure_even_length_def digit_value_def)
  have e2: "e \<noteq> []" using h(3) by (simp add: e_def ensure_even_length_def)
  have e3: "foldl (\<lambda>a c. a * 16 + digit_value c) 0 e = nat n"
    using h(1) by (simp add: e_def ensure_even_length_def foldl_leading_zero del: foldl_Cons)
  have "int_of_str max_digits 16 e = Inr n"
    using int_of_str_digits [where base = 16 and L = max_digits, OF e2 e1] e3 assms(1) by simp
  then show ?thesis using res even_ensure_even_length [of ?hs] e_def by blast
qed

theorem C5_encode_roundtrip_witness:
  "prepare_argument 4300 (ArgInt 255) = Inr ''ff'' \<and> int_of_str 4300 16 ''ff'' = Inr 255"
proof -
  have d: "digits_of 10 (nat 255) = ''255''" and h: "digits_of 16 (nat 255) = ''ff''"
    by code_simp+
  have "\<not> exceeds_limit 4300 (length (digits_of 10 (nat 255)))"
    unfolding d by (simp add: exceeds_limit_def)
  then have "prepare_argument 4300 (ArgInt 255) = Inr (ensure_even_length (digits_of 16 (nat 255)))"
    by (intro prepare_argument_nonneg) simp_all
  then have a: "prepare_argument 4300 (ArgInt 255) = Inr ''ff''"
    unfolding h by (simp add: ensure_even_length_def)
  have "(255::int) < 10 ^ 3" by simp
  moreover have "(10::int) ^ 3 \<le> 10 ^ 4300" by (rule power_increasing) simp_all
  ultimately have "(255::int) < 10 ^ 4300" by (rule less_le_trans)
  then have b: "(4300::nat) = 0 \<or> (255::int) < 10 ^ 4300" by (rule disjI2)
  have c: "(0::int) \<le> 255" by simp
  from C5_encode_roundtrip [OF c b] a show ?thesis by simp
qed

text \<open>
  The statement for every non-negative integer fails where the interpreter has its limit:
  with the default of 4300 digits, \<^verbatim>\<open>str(argument)\<close> raises \<^verbatim>\<open>ValueError\<close> for ten to the
  power of 4300, and nothing is encoded.
\<close>

theorem C5_digit_limit_counterexample:
  "prepare_argument 4300 (ArgInt (10 ^ 4300)) = Inl ValueError"
  by (rule prepare_argument_beyond_limit [OF _ order_refl]) simp

text \<open>
  C6, as the code has it. For every valid hex string \<open>h\<close> and either spelling of the
  prefix, the encoder accepts the prefixed text. It returns the uppercase form of \<open>h\<close>
  when the length of \<open>h\<close> is even, and that form with a single \<^verbatim>\<open>0\<close> in front when the
  length is odd. The uppercase form is \<open>h\<close> itself when \<open>h\<close> has no lowercase letter, and
  only then. This holds whatever the interpreter's limit on decimal digits is.
\<close>

theorem C6_hex_literal:
  assumes "valid_hex h" and "p = ''0X'' \<or> p = ''0x''"
  shows "(even (length h) \<longrightarrow> prepare_argument max_digits (ArgStr (p @ h)) = Inr (upper h))
    \<and> (odd (length h) \<longrightarrow>
          prepare_argument max_digits (ArgStr (p @ h)) = Inr (CHR ''0'' # upper h))
    \<and> (list_all is_upper_hex_digit h \<longrightarrow> upper h = h)
    \<and> (upper h = h \<longrightarrow> list_all is_upper_hex_digit h)"
proof -
  have a: "list_all is_upper_hex_digit h \<longrightarrow> upper h = h"
    unfolding upper_def using upper_char_upper_hex by (auto simp: list_all_iff intro: map_idI)
  have b: "upper h = h \<longrightarrow> list_all is_upper_hex_digit h"
  proof
    assume "upper h = h"
    then have "map upper_char h = map id h" by (simp add: upper_def)
    then have "\<forall>c\<in>set h. upper_char c = c" by (simp only: map_eq_conv id_apply)
    then show "list_all is_upper_hex_digit h"
      using assms(1) upper_char_fixed_hex by (auto simp: valid_hex_def list_all_iff)
  qed
  have c: "prepare_argument max_digits (ArgStr (p @ h)) = Inr (ensure_even_length (upper h))"
    by (rule prepare_hex_literal [OF assms])
  have d: "even (length h) \<longrightarrow> ensure_even_length (upper h) = upper h"
    and e: "odd (length h) \<longrightarrow> ensure_even_length (upper h) = CHR ''0'' # upper h"
    by (auto simp: ensure_even_length_def upper_def odd_iff_mod_2_eq_one)
  show ?thesis using a b c d e by simp
qed

theorem C6_hex_literal_witness:
  "prepare_argument 4300 (ArgStr ''0XFF'') = Inr ''FF''
   \<and> prepare_argument 4300 (ArgStr ''0xabc'') = Inr ''0ABC''"
proof -
  have v1: "valid_hex ''FF''" and v2: "valid_hex ''abc''"
    by (simp_all add: valid_hex_def is_hex_digit_def)
  have u1: "list_all is_upper_hex_digit ''FF''" by (simp add: is_upper_hex_digit_def)
  have u2: "upper ''abc'' = ''ABC''" by code_simp
  show ?thesis
    using C6_hex_literal [OF v1, of "''0X''"] C6_hex_literal [OF v2, of "''0x''"] u1 u2
    by simp
qed

text \<open>
  The statement that the encoder returns \<open>h\<close> itself fails for a hex string with a
  lowercase letter: \<^verbatim>\<open>0Xff\<close> is encoded as \<^verbatim>\<open>FF\<close>.
\<close>

theorem C6_lowercase_counterexample:
  "valid_hex ''ff'' \<and> even (length ''ff'')
   \<and> prepare_argument 4300 (ArgStr (''0X'' @ ''ff'')) \<noteq> Inr ''ff''"
proof -
  have v: "valid_hex ''ff''" by (simp add: valid_hex_def is_hex_digit_def)
  have u: "ensure_even_length (upper ''ff'') = ''FF''" by code_simp
  have "prepare_argument 4300 (ArgStr (''0X'' @ ''ff'')) = Inr ''FF''"
    using prepare_hex_literal [OF v, of "''0X''" 4300] u by simp
  then show ?thesis by (simp add: valid_hex_def is_hex_digit_def)
qed

text \<open>
  C7. \<^verbatim>\<open>CodeMetadata.to_hex\<close> returns the four-character string of the table for each of
  the four combinations of the flags: \<open>(false, false)\<close> gives \<^verbatim>\<open>0000\<close>, \<open>(true, false)\<close>
  gives \<^verbatim>\<open>0100\<close>, \<open>(false, true)\<close> gives \<^verbatim>\<open>0002\<close> and \<open>(true, true)\<close> gives \<^verbatim>\<open>0102\<close>; the
  first byte is \<^verbatim>\<open>01\<close> exactly when the contract is upgradeable and the second is \<^verbatim>\<open>02\<close>
  exactly when it is payable.
\<close>

theorem C7_to_hex_table:
  "to_hex \<lparr>upgradeable = False, payable = False\<rparr> = ''0000''
   \<and> to_hex \<lparr>upgradeable = True, payable = False\<rparr> = ''0100''
   \<and> to_hex \<lparr>upgradeable = False, payable = True\<rparr> = ''0002''
   \<and> to_hex \<lparr>upgradeable = True, payable = True\<rparr> = ''0102''
   \<and> length (to_hex m) = 4
   \<and> (take 2 (to_hex m) = ''01'') = upgradeable m
   \<and> (drop 2 (to_hex m) = ''02'') = payable m"
  by (simp add: to_hex_def)

text \<open>
  C8. Whenever \<^verbatim>\<open>deploy\<close> returns a transaction, the nonce of the transaction is the
  nonce of the owner, the address stored in the contract is the one derived from the
  owner's public key and that same nonce, and the receiver of the transaction is the text
  of the zero address. When the zero address is 32 zero bytes, it is not the derived
  address.
\<close>

theorem C8_deploy_nonce_and_receiver:
  assumes "deploy ext self ow arguments gas_price gas_limit val chain ver = (self', Inr tx)"
  shows "nonce tx = account_nonce ow
    \<and> compute_address (keccak256 ext) (self\<lparr>owner := Some ow\<rparr>) = Inr self'
    \<and> (\<exists>nonce_bytes. to_bytes_little 8 (nonce tx) = Inr nonce_bytes
          \<and> address self' = replicate 8 0 @ [5, 0]
               @ take 20 (drop 10 (keccak256 ext (account_address ow @ nonce_bytes)))
               @ drop 30 (account_address ow))
    \<and> receiver tx = bech32 ext (address_zero ext)
    \<and> (address_zero ext = replicate 32 0 \<longrightarrow> address self' \<noteq> address_zero ext)"
proof -
  obtain g tx_data where d: "gas_price = Some g"
    "compute_address (keccak256 ext) (self\<lparr>owner := Some ow\<rparr>) = Inr self'"
    "nonce tx = account_nonce ow" "receiver tx = bech32 ext (address_zero ext)"
    using deploy_Inr [OF assms] by auto
  obtain nonce_bytes where a: "to_bytes_little 8 (account_nonce ow) = Inr nonce_bytes"
    "address self' = replicate 8 0 @ [5, 0]
       @ take 20 (drop 10 (keccak256 ext (account_address ow @ nonce_bytes)))
       @ drop 30 (account_address ow)"
    using compute_address_Inr [OF d(2)] by auto
  have "address self' \<noteq> replicate 32 0" unfolding a(2) by (rule derived_not_zero)
  then show ?thesis using d a by auto
qed

theorem C8_deploy_nonce_and_receiver_witness:
  "\<exists>self' tx.
     deploy example_externals example_contract example_owner [] (Some 1) 2 None ''T'' 1 = (self', Inr tx)
     \<and> nonce tx = 7
     \<and> receiver tx = bech32 example_externals (replicate 32 0)
     \<and> address self' \<noteq> replicate 32 0"
proof -
  obtain self' tx where d:
    "deploy example_externals example_contract example_owner [] (Some 1) 2 None ''T'' 1 = (self', Inr tx)"
    using deploy_example by blast
  have n: "account_nonce example_owner = 7" by (simp add: example_owner_def)
  have z: "address_zero example_externals = replicate 32 0" by (simp add: example_externals_def)
  show ?thesis using C8_deploy_nonce_and_receiver [OF d] d n z by auto
qed

text \<open>
  C9. Whenever \<^verbatim>\<open>_interpret_return_data\<close> returns a \<^verbatim>\<open>QueryResult\<close>, the entry was a
  non-empty text, which is the \<^verbatim>\<open>base64\<close> field; that text base64-decodes to a byte
  sequence; the \<^verbatim>\<open>hex\<close> field is the hexadecimal text of these bytes; and the \<^verbatim>\<open>number\<close>
  field is the \<^verbatim>\<open>hex\<close> field read in base 16, which is the unsigned integer the bytes denote,
  most significant byte first.
\<close>

theorem C9_query_result_consistent:
  assumes "interpret_return_data d = Result r"
  shows "\<exists>bs. d = Some (base64 r) \<and> base64 r \<noteq> [] \<and> b64decode (base64 r) = Inr bs
      \<and> hex r = bytes_hex bs
      \<and> int_of_str max_digits 16 (hex r) = Inr (number r)
      \<and> number r = int (from_bytes_big bs)"
proof -
  obtain s bs where *: "d = Some s" "s \<noteq> []" "b64decode s = Inr bs" "bs \<noteq> []"
    "r = \<lparr>base64 = s, hex = bytes_hex bs, number = int (from_bytes_big bs)\<rparr>"
    using interpret_return_data_Result [OF assms] by blast
  then show ?thesis using int_of_str_bytes_hex [OF *(4)] by auto
qed

theorem C9_query_result_consistent_witness:
  "interpret_return_data (Some ''AQ=='') = Result \<lparr>base64 = ''AQ=='', hex = ''01'', number = 1\<rparr>
   \<and> b64decode ''AQ=='' = Inr [1] \<and> int_of_str 4300 16 ''01'' = Inr 1"
proof -
  have b: "b64decode ''AQ=='' = Inr [1]" by code_simp
  have h: "bytes_hex [1] = ''01''" by code_simp
  have n: "from_bytes_big [1] = 1" by (simp add: from_bytes_big_def)
  have a: "interpret_return_data (Some ''AQ=='') = Result \<lparr>base64 = ''AQ=='', hex = ''01'', number = 1\<rparr>"
    using interpret_return_data_decoded [OF b] h n by simp
  show ?thesis using C9_query_result_consistent [OF a] a b by (auto simp: h)
qed

text \<open>
  C10, as the code has it. For transactions that \<^verbatim>\<open>upgrade\<close>, \<^verbatim>\<open>deploy\<close> and \<^verbatim>\<open>execute\<close>
  return for the same contract, account, gas limit, value, chain and version: the gas
  price of \<^verbatim>\<open>upgrade\<close> is the configured default when the given one is \<^verbatim>\<open>None\<close> or zero, and
  the given one otherwise; the gas price of \<^verbatim>\<open>deploy\<close> and of \<^verbatim>\<open>execute\<close> is the given
  integer, zero included, and with \<^verbatim>\<open>None\<close> they raise \<^verbatim>\<open>TypeError\<close>. The fields nonce,
  value, sender, gas limit, chain and version are the same in the three transactions. The
  receiver is the contract's address in \<^verbatim>\<open>upgrade\<close> and \<^verbatim>\<open>execute\<close> and the zero address
  in \<^verbatim>\<open>deploy\<close>, and the data is what the data builder of the operation returns.
\<close>

theorem C10_gas_price_default:
  assumes "upgrade ext self acct arguments gu gas_limit val chain ver = (su, Inr tu)"
    and "deploy ext self acct arguments gd gas_limit val chain ver = (sd, Inr td)"
    and "execute ext self acct function arguments' ge gas_limit val chain ver = (se, Inr te)"
  shows "(gu = None \<or> gu = Some 0 \<longrightarrow> gasPrice tu = DEFAULT_GAS_PRICE ext)
    \<and> (\<forall>g. gu = Some g \<and> g \<noteq> 0 \<longrightarrow> gasPrice tu = g)
    \<and> gd = Some (gasPrice td) \<and> ge = Some (gasPrice te)
    \<and> nonce tu = nonce td \<and> nonce tu = nonce te
    \<and> value tu = value td \<and> value tu = value te
    \<and> sender tu = sender td \<and> sender tu = sender te
    \<and> gasLimit tu = gasLimit td \<and> gasLimit tu = gasLimit te
    \<and> chainID tu = chainID td \<and> chainID tu = chainID te
    \<and> version tu = version td \<and> version tu = version te
    \<and> receiver tu = receiver te
    \<and> receiver td = bech32 ext (address_zero ext)
    \<and> receiver tu = bech32 ext (address self)
    \<and> Inr (data tu) = prepare_upgrade_transaction_data (int_max_str_digits ext) self arguments
    \<and> Inr (data td) = prepare_deploy_transaction_data (int_max_str_digits ext)
                         (VM_TYPE_WASM_VM ext) self arguments
    \<and> Inr (data te) = prepare_execute_transaction_data (int_max_str_digits ext)
                         function arguments'
    \<and> snd (deploy ext self acct arguments None gas_limit val chain ver) = Inl TypeError
    \<and> snd (execute ext self acct function arguments' None gas_limit val chain ver) = Inl TypeError"
proof -
  have pu: "prepare_upgrade_transaction_data L (self\<lparr>owner := Some acct\<rparr>) arguments
      = prepare_upgrade_transaction_data L self arguments" for L
    by (simp add: prepare_upgrade_transaction_data_def)
  have pd: "prepare_deploy_transaction_data L (VM_TYPE_WASM_VM ext) sd arguments
      = prepare_deploy_transaction_data L (VM_TYPE_WASM_VM ext) self arguments" for L
    using deploy_Inr [OF assms(2)]
    by (auto simp: prepare_deploy_transaction_data_def compute_address_def Let_def
        split: sum.splits option.splits)
  have nd: "snd (deploy ext self acct arguments None gas_limit val chain ver) = Inl TypeError"
    using deploy_Inr [OF assms(2)] by (auto simp: deploy_def Let_def int_of_optional_def)
  have ne: "snd (execute ext self acct function arguments' None gas_limit val chain ver) = Inl TypeError"
    by (simp add: execute_def Let_def int_of_optional_def)
  show ?thesis
    using upgrade_Inr [OF assms(1)] deploy_Inr [OF assms(2)] execute_Inr [OF assms(3)] pu pd nd ne
    by (auto simp: or_default_def)
qed

theorem C10_gas_price_default_witness:
  "\<exists>tu td te.
     snd (upgrade example_externals example_contract example_owner [] None 2 None ''T'' 1) = Inr tu
     \<and> snd (deploy example_externals example_contract example_owner [] (Some 0) 2 None ''T'' 1) = Inr td
     \<and> snd (execute example_externals example_contract example_owner ''add'' [] (Some 0) 2 None ''T'' 1) = Inr te
     \<and> gasPrice tu = 1000000000 \<and> gasPrice td = 0 \<and> gasPrice te = 0
     \<and> nonce tu = nonce td \<and> sender tu = sender te"
proof -
  obtain su tu where u:
    "upgrade example_externals example_contract example_owner [] None 2 None ''T'' 1 = (su, Inr tu)"
    using upgrade_example by blast
  obtain sd td where d:
    "deploy example_externals example_contract example_owner [] (Some 0) 2 None ''T'' 1 = (sd, Inr td)"
    using deploy_example_zero by (metis prod.collapse)
  obtain se te where e:
    "execute example_externals example_contract example_owner ''add'' [] (Some 0) 2 None ''T'' 1 = (se, Inr te)"
    using execute_example by blast
  have g: "DEFAULT_GAS_PRICE example_externals = 1000000000" by (simp add: example_externals_def)
  show ?thesis using C10_gas_price_default [OF u d e] u d e g by auto
qed

text \<open>
  The statement that every field other than the gas price is built the same way fails: for
  the same inputs \<^verbatim>\<open>deploy\<close> and \<^verbatim>\<open>upgrade\<close> give different data and different
  receivers.
\<close>

theorem C10_fields_differ_counterexample:
  "map_sum id data (snd (deploy example_externals example_contract example_owner [] (Some 0) 2 None ''T'' 1))
     = Inr ''AABB@0500@0100''
   \<and> map_sum id data (snd (upgrade example_externals example_contract example_owner [] (Some 0) 2 None ''T'' 1))
     = Inr ''upgradeContract@AABB@0100''
   \<and> map_sum id receiver (snd (deploy example_externals example_contract example_owner [] (Some 0) 2 None ''T'' 1))
     \<noteq> map_sum id receiver (snd (upgrade example_externals example_contract example_owner [] (Some 0) 2 None ''T'' 1))"
  using example_receivers_differ by (simp add: deploy_example_zero upgrade_example_zero)

end
